theory Spec2Isabelle
  imports Complex_Main "HOL-Library.Char_ord" "HOL-Library.List_Lexorder"
begin

section \<open>Flight price bot: data model\<close>

text \<open>
  The development embeds \<^verbatim>\<open>price_bot_amadeus.py\<close>. Conventions of the embedding:
  \<^item> a \<^verbatim>\<open>datetime.date\<close> is its proleptic Gregorian ordinal, an \<open>int\<close> between 1
    (\<^verbatim>\<open>date.min\<close>) and 3652059 (\<^verbatim>\<open>date.max\<close>, 31 December 9999); adding a
    \<^verbatim>\<open>timedelta\<close> of \<open>n\<close> days is adding \<open>n\<close>, and raises \<^verbatim>\<open>OverflowError\<close> when the sum
    leaves that range;
  \<^item> a Python float is a \<open>pyfloat\<close>: a finite number, one of the two infinities, or
    NaN. Comparisons and arithmetic treat the three special values as IEEE 754 does.
    A finite float is a \<open>real\<close> and arithmetic on finite floats is exact: the rounding of
    binary64, the overflow of a finite result to an infinity and the sign of zero are
    left out;
  \<^item> an exception is a value \<open>Inl e\<close> of a sum type;
  \<^item> the HTTP transport, the token endpoint and the Telegram endpoint are parameters
    (the record \<open>entorno\<close>): each gives the outcome of the call, a value or an error. The
    local files are read and written without failure, and the log file is left out.
\<close>

datatype error =
    RuntimeError
  | HTTPError
  | KeyError
  | TypeError
  | ValueError
  | OverflowError
  | ZeroDivisionError

text \<open>The module constants (lines 26--40 of the source), as a record.\<close>

record config =
  ORIGEN :: string
  DESTINO :: string
  FECHA_DESDE :: int
  FECHA_HASTA :: int
  SOLO_IDA :: bool
  NOCHES_MIN :: int
  NOCHES_MAX :: int
  ADULTS :: int
  MONEDA :: string
  PRECIO_OBJETIVO :: real
  BAJA_MINIMA_PCT :: real
  MAX_DIAS :: int

definition config_fuente :: config where
  "config_fuente =
     \<lparr>ORIGEN = ''EZE'', DESTINO = ''MAD'',
      FECHA_DESDE = 739556, FECHA_HASTA = 739600,
      SOLO_IDA = False, NOCHES_MIN = 7, NOCHES_MAX = 21,
      ADULTS = 1, MONEDA = ''USD'',
      PRECIO_OBJETIVO = 600, BAJA_MINIMA_PCT = 8, MAX_DIAS = 20\<rparr>"

subsection \<open>Floats\<close>

datatype pyfloat = Fin real | PInf | NInf | NaN

text \<open>The comparisons \<^verbatim>\<open><\<close> and \<^verbatim>\<open><=\<close> of two floats; with a NaN both are false.\<close>

fun py_lt :: "pyfloat \<Rightarrow> pyfloat \<Rightarrow> bool" where
  "py_lt (Fin a) (Fin b) = (a < b)"
| "py_lt (Fin a) PInf = True"
| "py_lt (Fin a) NInf = False"
| "py_lt PInf y = False"
| "py_lt NInf (Fin b) = True"
| "py_lt NInf PInf = True"
| "py_lt NInf NInf = False"
| "py_lt NaN y = False"
| "py_lt x NaN = False"

fun py_le :: "pyfloat \<Rightarrow> pyfloat \<Rightarrow> bool" where
  "py_le (Fin a) (Fin b) = (a \<le> b)"
| "py_le (Fin a) PInf = True"
| "py_le (Fin a) NInf = False"
| "py_le PInf (Fin b) = False"
| "py_le PInf PInf = True"
| "py_le PInf NInf = False"
| "py_le NInf (Fin b) = True"
| "py_le NInf PInf = True"
| "py_le NInf NInf = True"
| "py_le NaN y = False"
| "py_le x NaN = False"

text \<open>
  Subtraction, multiplication and division. Dividing by zero raises in Python, whatever
  the dividend.
\<close>

fun py_sub :: "pyfloat \<Rightarrow> pyfloat \<Rightarrow> pyfloat" where
  "py_sub (Fin a) (Fin b) = Fin (a - b)"
| "py_sub (Fin a) PInf = NInf"
| "py_sub (Fin a) NInf = PInf"
| "py_sub PInf (Fin b) = PInf"
| "py_sub PInf PInf = NaN"
| "py_sub PInf NInf = PInf"
| "py_sub NInf (Fin b) = NInf"
| "py_sub NInf PInf = NInf"
| "py_sub NInf NInf = NaN"
| "py_sub NaN y = NaN"
| "py_sub x NaN = NaN"

fun py_mul :: "pyfloat \<Rightarrow> pyfloat \<Rightarrow> pyfloat" where
  "py_mul (Fin a) (Fin b) = Fin (a * b)"
| "py_mul (Fin a) PInf = (if a = 0 then NaN else if 0 < a then PInf else NInf)"
| "py_mul (Fin a) NInf = (if a = 0 then NaN else if 0 < a then NInf else PInf)"
| "py_mul PInf (Fin b) = (if b = 0 then NaN else if 0 < b then PInf else NInf)"
| "py_mul PInf PInf = PInf"
| "py_mul PInf NInf = NInf"
| "py_mul NInf (Fin b) = (if b = 0 then NaN else if 0 < b then NInf else PInf)"
| "py_mul NInf PInf = NInf"
| "py_mul NInf NInf = PInf"
| "py_mul NaN y = NaN"
| "py_mul x NaN = NaN"

fun cociente :: "pyfloat \<Rightarrow> pyfloat \<Rightarrow> pyfloat" where
  "cociente (Fin a) (Fin b) = Fin (a / b)"
| "cociente (Fin a) PInf = Fin 0"
| "cociente (Fin a) NInf = Fin 0"
| "cociente PInf (Fin b) = (if 0 < b then PInf else NInf)"
| "cociente PInf PInf = NaN"
| "cociente PInf NInf = NaN"
| "cociente NInf (Fin b) = (if 0 < b then NInf else PInf)"
| "cociente NInf PInf = NaN"
| "cociente NInf NInf = NaN"
| "cociente NaN y = NaN"
| "cociente x NaN = NaN"

definition py_div :: "pyfloat \<Rightarrow> pyfloat \<Rightarrow> error + pyfloat" where
  "py_div x y = (if y = Fin 0 then Inl ZeroDivisionError else Inr (cociente x y))"

text \<open>
  \<^verbatim>\<open>round(x, 2)\<close>: the nearest multiple of one hundredth, a tie going to the even one;
  an infinity or a NaN is returned as it is. The argument here is the exact quotient;
  Python rounds the binary64 value of it, so that the second decimal can differ where
  the two lie on different sides of a tie (the exact 0.005 gives 0.0, the float of
  \<^verbatim>\<open>(20000 - 19999) * 100 / 20000\<close> gives 0.01).
\<close>

definition round_half_even :: "real \<Rightarrow> int" where
  "round_half_even x =
     (let f = \<lfloor>x\<rfloor>; d = x - of_int f
      in if d < 1 / 2 then f
         else if 1 / 2 < d then f + 1
         else if even f then f else f + 1)"

fun py_round2 :: "pyfloat \<Rightarrow> pyfloat" where
  "py_round2 (Fin x) = Fin (of_int (round_half_even (x * 100)) / 100)"
| "py_round2 PInf = PInf"
| "py_round2 NInf = NInf"
| "py_round2 NaN = NaN"

subsection \<open>Dates\<close>

definition date_max :: int where
  "date_max = 3652059"

text \<open>
  \<^verbatim>\<open>d + timedelta(days=n)\<close> for a date \<open>d\<close>: a \<^verbatim>\<open>timedelta\<close> holds at most 999999999
  days, and the sum has to be a date.
\<close>

definition date_add :: "int \<Rightarrow> int \<Rightarrow> error + int" where
  "date_add d n =
     (if \<bar>n\<bar> \<le> 999999999 \<and> 1 \<le> d + n \<and> d + n \<le> date_max then Inr (d + n)
      else Inl OverflowError)"

subsection \<open>Offers\<close>

text \<open>
  The value under \<^verbatim>\<open>"carrierCode"\<close> that \<^verbatim>\<open>carriers.add\<close> accepts: a string, or another
  hashable JSON value (a number, a boolean, \<^verbatim>\<open>null\<close>).
\<close>

datatype codigo = Cadena string | NoCadena

text \<open>
  A segment and an itinerary, as far as lines 207--209 read them. \<open>carrierCode\<close> is
  \<open>None\<close> when \<^verbatim>\<open>carriers.add(seg["carrierCode"])\<close> raises (no such key, a segment that is
  no object, a value that cannot be hashed); \<open>segments\<close> is \<open>None\<close> when
  \<^verbatim>\<open>for seg in it["segments"]\<close> raises before its first turn.
\<close>

record segment =
  carrierCode :: "codigo option"

record itinerary =
  segments :: "segment list option"

text \<open>
  An offer record of the search API. \<open>total\<close> is the outcome of
  \<^verbatim>\<open>float(o["price"]["total"])\<close>: the exception when that expression raises (a missing
  key, a value that is no number), the float otherwise, which is an infinity or a NaN for
  a text such as \<^verbatim>\<open>"inf"\<close>, \<^verbatim>\<open>"1e400"\<close> or \<^verbatim>\<open>"nan"\<close>. \<open>itineraries\<close> is \<open>None\<close> when
  \<^verbatim>\<open>for it in offer["itineraries"]\<close> raises before its first turn. The keys \<^verbatim>\<open>_nights\<close>
  and \<^verbatim>\<open>_route_summary\<close> are the ones the program adds; \<open>oferta_id\<close> stands for the rest.
\<close>

record offer =
  oferta_id :: string
  total :: "error + pyfloat"
  itineraries :: "itinerary list option"
  nights_tag :: "int option"
  route_summary :: "(string \<times> string) option"

section \<open>Date Window Enumerator\<close>

text \<open>
  \<^verbatim>\<open>daterange\<close> (lines 69--75): the dates the generator yields, in the order it
  yields them. The loop \<^verbatim>\<open>while d1 <= d2: yield d1; d1 += step\<close> is the recursion. The
  statement \<^verbatim>\<open>d1 += step\<close> runs when the consumer asks for the date after \<open>d1\<close>; it is
  \<open>date_add d1 1\<close>, and the loop that consumes the generator (\<open>bucle\<close> below) evaluates it
  there, so that the \<^verbatim>\<open>OverflowError\<close> after the last day of the calendar is an outcome
  of the run.
\<close>

function daterange :: "int \<Rightarrow> int \<Rightarrow> int list" where
  "daterange d1 d2 = (if d1 \<le> d2 then d1 # daterange (d1 + 1) d2 else [])"
  by pat_completeness auto
termination
  by (relation "measure (\<lambda>(d1, d2). nat (d2 + 1 - d1))") auto

declare daterange.simps [simp del]

text \<open>
  The head of the \<^verbatim>\<open>for\<close> loop of \<^verbatim>\<open>buscar_mejor_precio_amadeus\<close> (lines 132--135):
  the dates for which the body runs. \<open>count_days\<close> is the counter at entry.
\<close>

fun fechas_consumidas :: "config \<Rightarrow> int list \<Rightarrow> int \<Rightarrow> int list" where
  "fechas_consumidas cfg [] count_days = []"
| "fechas_consumidas cfg (dep_date # rest) count_days =
     (if count_days \<ge> MAX_DIAS cfg then []
      else dep_date # fechas_consumidas cfg rest (count_days + 1))"

section \<open>Offer Query Planner\<close>

record params =
  originLocationCode :: string
  destinationLocationCode :: string
  departureDate :: int
  returnDate :: "int option"
  adults :: int
  currencyCode :: string
  max_results :: int

text \<open>
  The collaborators of one run. \<open>do_request\<close> is the nested function of lines
  113--127 seen from its caller: the list under \<^verbatim>\<open>"data"\<close> of the response, or the
  exception of \<^verbatim>\<open>raise_for_status\<close>. \<open>credenciales\<close> says that the four environment
  variables are set, \<open>ahora\<close> is \<^verbatim>\<open>datetime.now().isoformat()\<close>.
\<close>

record entorno =
  credenciales :: bool
  get_amadeus_token :: "error + string"
  do_request :: "params \<Rightarrow> error + offer list"
  send_telegram :: "error + unit"
  ahora :: string

definition params_de :: "config \<Rightarrow> int \<Rightarrow> int option \<Rightarrow> params" where
  "params_de cfg dep_date ret_date =
     \<lparr>originLocationCode = ORIGEN cfg, destinationLocationCode = DESTINO cfg,
      departureDate = dep_date, returnDate = ret_date,
      adults = ADULTS cfg, currencyCode = MONEDA cfg, max_results = 20\<rparr>"

text \<open>
  The sweep over the nights (lines 148--163): \<open>candidates\<close> is the list accumulated so
  far, every item of a response gets the key \<^verbatim>\<open>_nights\<close>. The return date of line 150
  may lie outside the calendar.
\<close>

fun barrido_noches ::
  "config \<Rightarrow> entorno \<Rightarrow> int \<Rightarrow> int list \<Rightarrow> offer list \<Rightarrow> error + offer list" where
  "barrido_noches cfg env dep_date [] candidates = Inr candidates"
| "barrido_noches cfg env dep_date (nights # rest) candidates =
     (case date_add dep_date nights of
        Inl e \<Rightarrow> Inl e
      | Inr ret_date \<Rightarrow>
          (case do_request env (params_de cfg dep_date (Some ret_date)) of
             Inl e \<Rightarrow> Inl e
           | Inr data \<Rightarrow>
               barrido_noches cfg env dep_date rest
                 (candidates @ map (\<lambda>item. item\<lparr>nights_tag := Some nights\<rparr>) data)))"

definition candidatos_fecha :: "config \<Rightarrow> entorno \<Rightarrow> int \<Rightarrow> error + offer list" where
  "candidatos_fecha cfg env dep_date =
     (if SOLO_IDA cfg then do_request env (params_de cfg dep_date None)
      else barrido_noches cfg env dep_date [NOCHES_MIN cfg..NOCHES_MAX cfg] [])"

section \<open>Cheapest-Offer Selector\<close>

text \<open>
  \<^verbatim>\<open>price_of\<close> (lines 168--172): the float read from the total, or
  \<^verbatim>\<open>float("inf")\<close> when reading it raises.
\<close>

definition price_of :: "offer \<Rightarrow> error + pyfloat" where
  "price_of ofr = (case total ofr of Inr x \<Rightarrow> Inr x | Inl e \<Rightarrow> Inr PInf)"

text \<open>
  Python's \<^verbatim>\<open>min(iterable, key=k)\<close>: the key of each item is computed once; the first
  item is kept and replaced by a later one only when the later key is strictly smaller
  (\<^verbatim>\<open><\<close> on the keys). An exception of the key ends the reduction, an empty iterable
  raises \<^verbatim>\<open>ValueError\<close>.
\<close>

fun min_desde :: "('a \<Rightarrow> error + pyfloat) \<Rightarrow> 'a \<Rightarrow> pyfloat \<Rightarrow> 'a list \<Rightarrow> error + 'a" where
  "min_desde k best kbest [] = Inr best"
| "min_desde k best kbest (x # xs) =
     (case k x of
        Inl e \<Rightarrow> Inl e
      | Inr kx \<Rightarrow> if py_lt kx kbest then min_desde k x kx xs else min_desde k best kbest xs)"

fun py_min :: "('a \<Rightarrow> error + pyfloat) \<Rightarrow> 'a list \<Rightarrow> error + 'a" where
  "py_min k [] = Inl ValueError"
| "py_min k (x # xs) = (case k x of Inl e \<Rightarrow> Inl e | Inr kx \<Rightarrow> min_desde k x kx xs)"

text \<open>Lines 176--179: the selected offer gets the route summary and keeps its nights.\<close>

definition marcar :: "config \<Rightarrow> offer \<Rightarrow> offer" where
  "marcar cfg cheapest =
     (let best_offer = cheapest\<lparr>route_summary := Some (ORIGEN cfg, DESTINO cfg)\<rparr>
      in if \<not> SOLO_IDA cfg then best_offer\<lparr>nights_tag := nights_tag cheapest\<rparr>
         else best_offer)"

text \<open>
  Lines 165--179, the end of the body of the loop: from the candidates of one date and
  the best offer so far to the best offer after that date.
\<close>

definition elegir :: "config \<Rightarrow> offer list \<Rightarrow> offer option \<Rightarrow> error + offer option" where
  "elegir cfg candidates best_offer =
     (if candidates = [] then Inr best_offer
      else
        (case py_min price_of candidates of
           Inl e \<Rightarrow> Inl e
         | Inr cheapest \<Rightarrow>
             (case best_offer of
                None \<Rightarrow> Inr (Some (marcar cfg cheapest))
              | Some b \<Rightarrow>
                  (case price_of cheapest of
                     Inl e \<Rightarrow> Inl e
                   | Inr pc \<Rightarrow>
                       (case price_of b of
                          Inl e \<Rightarrow> Inl e
                        | Inr pb \<Rightarrow>
                            if py_lt pc pb then Inr (Some (marcar cfg cheapest))
                            else Inr (Some b))))))"

text \<open>
  The \<^verbatim>\<open>for\<close> loop of lines 132--179 over the dates of \<open>daterange\<close>, with \<open>count_days\<close>
  and \<open>best_offer\<close> as its state. A failed request ends the run with its exception. After
  the body for \<open>dep_date\<close> the loop asks the generator for the next date, which runs
  \<^verbatim>\<open>d1 += step\<close> of line 75.
\<close>

fun bucle ::
  "config \<Rightarrow> entorno \<Rightarrow> int list \<Rightarrow> int \<Rightarrow> offer option \<Rightarrow> error + offer option" where
  "bucle cfg env [] count_days best_offer = Inr best_offer"
| "bucle cfg env (dep_date # rest) count_days best_offer =
     (if count_days \<ge> MAX_DIAS cfg then Inr best_offer
      else
        (case candidatos_fecha cfg env dep_date of
           Inl e \<Rightarrow> Inl e
         | Inr candidates \<Rightarrow>
             (case elegir cfg candidates best_offer of
                Inl e \<Rightarrow> Inl e
              | Inr best \<Rightarrow>
                  (case date_add dep_date 1 of
                     Inl e \<Rightarrow> Inl e
                   | Inr d1 \<Rightarrow> bucle cfg env rest (count_days + 1) best))))"

definition buscar_mejor_precio_amadeus :: "config \<Rightarrow> entorno \<Rightarrow> error + offer option" where
  "buscar_mejor_precio_amadeus cfg env =
     (case get_amadeus_token env of
        Inl e \<Rightarrow> Inl e
      | Inr token \<Rightarrow>
          bucle cfg env (daterange (FECHA_DESDE cfg) (FECHA_HASTA cfg)) 0 None)"

text \<open>
  The candidates of a whole run in the order the program sees them: the consumed dates
  ascending, and within a date the list of \<open>candidatos_fecha\<close> (nights ascending). A date
  whose request fails contributes nothing here; the run itself fails then.
\<close>

definition candidatos_de :: "config \<Rightarrow> entorno \<Rightarrow> int \<Rightarrow> offer list" where
  "candidatos_de cfg env dep_date =
     (case candidatos_fecha cfg env dep_date of Inl e \<Rightarrow> [] | Inr cs \<Rightarrow> cs)"

definition candidatos_ventana :: "config \<Rightarrow> entorno \<Rightarrow> offer list" where
  "candidatos_ventana cfg env =
     concat (map (candidatos_de cfg env)
       (fechas_consumidas cfg (daterange (FECHA_DESDE cfg) (FECHA_HASTA cfg)) 0))"

text \<open>The float that \<open>price_of\<close> returns for an offer (see \<open>price_of_precio\<close> below).\<close>

definition precio :: "offer \<Rightarrow> pyfloat" where
  "precio ofr = (case total ofr of Inr x \<Rightarrow> x | Inl e \<Rightarrow> PInf)"

text \<open>
  The reduction rule in the words of the specification: position \<open>i\<close> of a list holds
  an item of minimum key, and every item before it has a strictly greater key (the
  first one seen among equals).
\<close>

definition primero_en :: "('a \<Rightarrow> pyfloat) \<Rightarrow> 'a list \<Rightarrow> nat \<Rightarrow> bool" where
  "primero_en k ys i \<longleftrightarrow>
     i < length ys \<and> (\<forall>j<length ys. py_le (k (ys ! i)) (k (ys ! j))) \<and>
     (\<forall>j<i. py_lt (k (ys ! i)) (k (ys ! j)))"

text \<open>What the loop keeps between two dates: the best offer for the candidates seen.\<close>

definition seleccion :: "config \<Rightarrow> offer list \<Rightarrow> offer option \<Rightarrow> bool" where
  "seleccion cfg seen best \<longleftrightarrow>
     (case best of
        None \<Rightarrow> seen = []
      | Some b \<Rightarrow> \<exists>i. primero_en precio seen i \<and> b = marcar cfg (seen ! i))"

section \<open>Alert Decision Engine and State Store\<close>

text \<open>
  The dictionary of \<^verbatim>\<open>price_state.json\<close>; a key that is absent is \<open>None\<close>. The stored
  minimum is a float: \<^verbatim>\<open>json.dumps\<close> writes an infinity or a NaN and \<^verbatim>\<open>json.loads\<close>
  reads them back.
\<close>

record price_state =
  min_price :: "pyfloat option"
  min_when :: "string option"
  min_route :: "(string \<times> string) option"

text \<open>
  The reasons of \<open>motivos\<close>, one constructor for each message of the source; the
  percentage that the message prints is the argument.
\<close>

datatype motivo =
    PrimerPrecio
  | NuevoMinimo pyfloat
  | BajaVsMinimo pyfloat
  | PrecioObjetivo

record alerta =
  debe_alertar :: bool
  motivos :: "motivo list"

text \<open>
  The expression of lines 224 and 231,
  \<^verbatim>\<open>round((prev_min - total_price) * 100 / prev_min, 2)\<close>; dividing by a stored minimum
  of zero raises.
\<close>

definition drop_pct :: "pyfloat \<Rightarrow> pyfloat \<Rightarrow> error + pyfloat" where
  "drop_pct prev_min total_price =
     (case py_div (py_mul (py_sub prev_min total_price) (Fin 100)) prev_min of
        Inl e \<Rightarrow> Inl e
      | Inr x \<Rightarrow> Inr (py_round2 x))"

text \<open>Lines 236--238: the target price, independent of what came before.\<close>

definition objetivo :: "config \<Rightarrow> pyfloat \<Rightarrow> alerta \<Rightarrow> alerta" where
  "objetivo cfg total_price a =
     (if py_le total_price (Fin (PRECIO_OBJETIVO cfg))
      then \<lparr>debe_alertar = True, motivos = motivos a @ [PrecioObjetivo]\<rparr>
      else a)"

text \<open>
  Lines 215--238 of \<^verbatim>\<open>main\<close>: from the loaded state and the price of the selected
  offer to the decision and the dictionary that \<^verbatim>\<open>save_state\<close> will write.
\<close>

definition decidir ::
  "config \<Rightarrow> string \<Rightarrow> string \<times> string \<Rightarrow> price_state \<Rightarrow> pyfloat \<Rightarrow>
   error + alerta \<times> price_state" where
  "decidir cfg now route_sum state total_price =
     (case min_price state of
        None \<Rightarrow>
          Inr (objetivo cfg total_price \<lparr>debe_alertar = True, motivos = [PrimerPrecio]\<rparr>,
               state\<lparr>min_price := Some total_price, min_when := Some now,
                     min_route := Some route_sum\<rparr>)
      | Some prev_min \<Rightarrow>
          if py_lt total_price prev_min then
            (case drop_pct prev_min total_price of
               Inl e \<Rightarrow> Inl e
             | Inr d \<Rightarrow>
                 Inr (objetivo cfg total_price
                        \<lparr>debe_alertar = True, motivos = [NuevoMinimo d]\<rparr>,
                      state\<lparr>min_price := Some total_price, min_when := Some now,
                            min_route := Some route_sum\<rparr>))
          else
            (case drop_pct prev_min total_price of
               Inl e \<Rightarrow> Inl e
             | Inr d \<Rightarrow>
                 Inr (objetivo cfg total_price
                        (if py_le (Fin (BAJA_MINIMA_PCT cfg)) d
                         then \<lparr>debe_alertar = True, motivos = [BajaVsMinimo d]\<rparr>
                         else \<lparr>debe_alertar = False, motivos = []\<rparr>),
                      state)))"

subsection \<open>The carriers of the selected offer\<close>

text \<open>
  Lines 205--211: the two nested loops add the carrier code of each segment to the set
  \<open>carriers\<close>; an exception inside the \<^verbatim>\<open>try\<close> ends both loops and keeps what the set
  holds. The set is the list of the values added, in the order they are added. \<open>Inl\<close>
  carries the set when an exception has ended the loop, \<open>Inr\<close> when the loop has reached
  its end.
\<close>

fun segmentos_loop :: "segment list \<Rightarrow> codigo list \<Rightarrow> codigo list + codigo list" where
  "segmentos_loop [] carriers = Inr carriers"
| "segmentos_loop (seg # rest) carriers =
     (case carrierCode seg of
        None \<Rightarrow> Inl carriers
      | Some c \<Rightarrow> segmentos_loop rest (carriers @ [c]))"

fun itinerarios_loop :: "itinerary list \<Rightarrow> codigo list \<Rightarrow> codigo list + codigo list" where
  "itinerarios_loop [] carriers = Inr carriers"
| "itinerarios_loop (it # rest) carriers =
     (case segments it of
        None \<Rightarrow> Inl carriers
      | Some segs \<Rightarrow>
          (case segmentos_loop segs carriers of
             Inl cs \<Rightarrow> Inl cs
           | Inr cs \<Rightarrow> itinerarios_loop rest cs))"

definition carriers_de :: "offer \<Rightarrow> codigo list" where
  "carriers_de ofr =
     (case itineraries ofr of
        None \<Rightarrow> []
      | Some its \<Rightarrow> (case itinerarios_loop its [] of Inl cs \<Rightarrow> cs | Inr cs \<Rightarrow> cs))"

text \<open>
  Line 212, outside the \<^verbatim>\<open>try\<close>: \<^verbatim>\<open>", ".join(sorted(list(carriers)))\<close>, or \<^verbatim>\<open>"N/D"\<close> for
  the empty set. With a value in the set that is no string, \<^verbatim>\<open>sorted\<close> or \<^verbatim>\<open>join\<close>
  raises \<^verbatim>\<open>TypeError\<close>.
\<close>

fun cadena_de :: "codigo \<Rightarrow> string option" where
  "cadena_de (Cadena s) = Some s"
| "cadena_de NoCadena = None"

fun join_coma :: "string list \<Rightarrow> string" where
  "join_coma [] = []"
| "join_coma [x] = x"
| "join_coma (x # y # rest) = x @ '', '' @ join_coma (y # rest)"

definition carriers_str :: "offer \<Rightarrow> error + string" where
  "carriers_str ofr =
     (let carriers = carriers_de ofr
      in if carriers = [] then Inr ''N/D''
         else
           (case those (map cadena_de carriers) of
              None \<Rightarrow> Inl TypeError
            | Some codes \<Rightarrow> Inr (join_coma (sort (remdups codes)))))"

subsection \<open>One run\<close>

text \<open>
  One run of \<^verbatim>\<open>main\<close> (lines 183--256). \<open>eventos\<close> is the trace of what the run does to
  the state file and to the notification channel, in order; \<open>archivo\<close> is the content of
  the state file after the run; \<open>resultado\<close> is the exception that ends the run, or the
  decision (\<open>None\<close> when the run returns at line 198 without one). The text of the
  message is not part of the trace.
\<close>

datatype evento = LoadState | SaveState price_state | SendTelegram

record salida =
  eventos :: "evento list"
  archivo :: price_state
  resultado :: "error + alerta option"

definition main :: "config \<Rightarrow> entorno \<Rightarrow> price_state \<Rightarrow> salida" where
  "main cfg env file =
     (if \<not> credenciales env
      then \<lparr>eventos = [], archivo = file, resultado = Inl RuntimeError\<rparr>
      else
        (case buscar_mejor_precio_amadeus cfg env of
           Inl e \<Rightarrow> \<lparr>eventos = [], archivo = file, resultado = Inl e\<rparr>
         | Inr None \<Rightarrow> \<lparr>eventos = [], archivo = file, resultado = Inr None\<rparr>
         | Inr (Some offer) \<Rightarrow>
             (case total offer of
                Inl e \<Rightarrow> \<lparr>eventos = [], archivo = file, resultado = Inl e\<rparr>
              | Inr total_price \<Rightarrow>
                  (let route_sum =
                         (case route_summary offer of
                            Some r \<Rightarrow> r
                          | None \<Rightarrow> (ORIGEN cfg, DESTINO cfg))
                   in case carriers_str offer of
                        Inl e \<Rightarrow> \<lparr>eventos = [], archivo = file, resultado = Inl e\<rparr>
                      | Inr carriers_text \<Rightarrow>
                          (case decidir cfg (ahora env) route_sum file total_price of
                             Inl e \<Rightarrow>
                               \<lparr>eventos = [LoadState], archivo = file, resultado = Inl e\<rparr>
                           | Inr (a, state) \<Rightarrow>
                               if debe_alertar a then
                                 (case send_telegram env of
                                    Inl e \<Rightarrow>
                                      \<lparr>eventos = [LoadState, SaveState state],
                                       archivo = state, resultado = Inl e\<rparr>
                                  | Inr u \<Rightarrow>
                                      \<lparr>eventos = [LoadState, SaveState state, SendTelegram],
                                       archivo = state, resultado = Inr (Some a)\<rparr>)
                               else
                                 \<lparr>eventos = [LoadState, SaveState state],
                                  archivo = state, resultado = Inr (Some a)\<rparr>)))))"

text \<open>A sequence of runs: each run starts from the state file the one before left.\<close>

definition corrida :: "config \<Rightarrow> price_state \<Rightarrow> entorno \<Rightarrow> price_state" where
  "corrida cfg file env = archivo (main cfg env file)"

definition corridas :: "config \<Rightarrow> price_state \<Rightarrow> entorno list \<Rightarrow> price_state" where
  "corridas cfg file envs = foldl (corrida cfg) file envs"

section \<open>A small run, for evaluation\<close>

text \<open>
  A round trip of seven or eight nights over a window of two days. The search returns
  offers for two of the four requests; offer \<open>B\<close> has no price that parses, \<open>C\<close> and
  \<open>D\<close> cost the same.
\<close>

definition oferta_ej :: "string \<Rightarrow> error + pyfloat \<Rightarrow> offer" where
  "oferta_ej n t =
     \<lparr>oferta_id = n, total = t, itineraries = Some [], nights_tag = None,
      route_summary = None\<rparr>"

definition config_ej :: config where
  "config_ej =
     config_fuente\<lparr>FECHA_DESDE := 100, FECHA_HASTA := 101, NOCHES_MIN := 7, NOCHES_MAX := 8\<rparr>"

definition respuestas_ej :: "params \<Rightarrow> error + offer list" where
  "respuestas_ej p =
     (if departureDate p = 100 \<and> returnDate p = Some 108
      then Inr [oferta_ej ''A'' (Inr (Fin 500)), oferta_ej ''B'' (Inl ValueError)]
      else if departureDate p = 101 \<and> returnDate p = Some 108
      then Inr [oferta_ej ''C'' (Inr (Fin 450)), oferta_ej ''D'' (Inr (Fin 450))]
      else Inr [])"

definition entorno_ej :: entorno where
  "entorno_ej =
     \<lparr>credenciales = True, get_amadeus_token = Inr ''token'',
      do_request = respuestas_ej, send_telegram = Inr (),
      ahora = ''2025-10-01T08:00:00''\<rparr>"

text \<open>A state file with a given stored minimum, and the route of the source.\<close>

definition estado_ej :: "pyfloat option \<Rightarrow> price_state" where
  "estado_ej m = \<lparr>min_price = m, min_when = None, min_route = None\<rparr>"

definition ruta_ej :: "string \<times> string" where
  "ruta_ej = (''EZE'', ''MAD'')"

text \<open>The configuration of the source with a cap of three dates.\<close>

definition config_tope :: config where
  "config_tope = config_fuente\<lparr>MAX_DIAS := 3\<rparr>"

text \<open>
  A one-way search over a single date, and a search API that answers every request with
  the same list of offers.
\<close>

definition config_un_dia :: config where
  "config_un_dia = config_fuente\<lparr>SOLO_IDA := True, FECHA_DESDE := 100, FECHA_HASTA := 100\<rparr>"

definition entorno_con :: "offer list \<Rightarrow> entorno" where
  "entorno_con cs =
     \<lparr>credenciales = True, get_amadeus_token = Inr ''token'',
      do_request = (\<lambda>p. Inr cs), send_telegram = Inr (),
      ahora = ''2025-10-01T08:00:00''\<rparr>"

text \<open>The configuration of the source with its window written backwards.\<close>

definition config_invertida :: config where
  "config_invertida = config_fuente\<lparr>FECHA_DESDE := 739600, FECHA_HASTA := 739556\<rparr>"

text \<open>A one-way search on the last day of the calendar.\<close>

definition config_ultimo_dia :: config where
  "config_ultimo_dia =
     config_fuente\<lparr>SOLO_IDA := True, FECHA_DESDE := 3652059, FECHA_HASTA := 3652059\<rparr>"

text \<open>An offer with a price of 450 and one segment, whose carrier code is given.\<close>

definition oferta_con_codigo :: "codigo \<Rightarrow> offer" where
  "oferta_con_codigo c =
     \<lparr>oferta_id = ''K'', total = Inr (Fin 450),
      itineraries = Some [\<lparr>segments = Some [\<lparr>carrierCode = Some c\<rparr>]\<rparr>],
      nights_tag = None, route_summary = None\<rparr>"

section \<open>The order of the floats\<close>

lemma py_lt_irrefl: "\<not> py_lt x x"
  by (cases x) simp_all

lemma py_lt_trans: "py_lt x y \<Longrightarrow> py_lt y z \<Longrightarrow> py_lt x z"
  by (cases x; cases y; cases z) simp_all

lemma py_le_trans: "py_le x y \<Longrightarrow> py_le y z \<Longrightarrow> py_le x z"
  by (cases x; cases y; cases z) simp_all

lemma py_lt_le_trans: "py_lt x y \<Longrightarrow> py_le y z \<Longrightarrow> py_lt x z"
  by (cases x; cases y; cases z) simp_all

lemma py_le_lt_trans: "py_le x y \<Longrightarrow> py_lt y z \<Longrightarrow> py_lt x z"
  by (cases x; cases y; cases z) simp_all

lemma py_lt_imp_le: "py_lt x y \<Longrightarrow> py_le x y"
  by (cases x; cases y) simp_all

lemma py_le_refl: "x \<noteq> NaN \<Longrightarrow> py_le x x"
  by (cases x) simp_all

lemma py_not_lt: "x \<noteq> NaN \<Longrightarrow> y \<noteq> NaN \<Longrightarrow> \<not> py_lt x y \<Longrightarrow> py_le y x"
  by (cases x; cases y) simp_all

lemma py_le_no_NaN: "py_le x y \<Longrightarrow> x \<noteq> NaN \<and> y \<noteq> NaN"
  by (cases x; cases y) simp_all

lemma py_lt_no_NaN: "py_lt x y \<Longrightarrow> x \<noteq> NaN \<and> y \<noteq> NaN"
  by (cases x; cases y) simp_all

section \<open>The selector returns the first cheapest candidate\<close>

lemma price_of_precio: "price_of ofr = Inr (precio ofr)"
  by (simp add: price_of_def precio_def split: sum.splits)

lemma precio_marcar: "precio (marcar cfg c) = precio c"
  by (simp add: precio_def marcar_def Let_def)

lemma total_marcar: "total (marcar cfg c) = total c"
  by (simp add: marcar_def Let_def)

lemma precio_NaN: "precio c = NaN \<longleftrightarrow> total c = Inr NaN"
  by (simp add: precio_def split: sum.splits)

lemma min_desde_snoc:
  "min_desde price_of b (precio b) (xs @ [x]) =
     (case min_desde price_of b (precio b) xs of
        Inl e \<Rightarrow> Inl e
      | Inr m \<Rightarrow> Inr (if py_lt (precio x) (precio m) then x else m))"
  by (induction xs arbitrary: b) (simp_all add: price_of_precio)

lemma primero_en_snoc_lt:
  assumes "primero_en k ys i" "py_lt (k x) (k (ys ! i))"
  shows "primero_en k (ys @ [x]) (length ys)"
  unfolding primero_en_def
proof (intro conjI allI impI)
  show "length ys < length (ys @ [x])" by simp
next
  fix j assume j: "j < length (ys @ [x])"
  show "py_le (k ((ys @ [x]) ! length ys)) (k ((ys @ [x]) ! j))"
  proof (cases "j < length ys")
    case True
    then have "py_le (k (ys ! i)) (k (ys ! j))"
      using assms(1) by (simp add: primero_en_def)
    with assms(2) have "py_lt (k x) (k (ys ! j))" by (rule py_lt_le_trans)
    then show ?thesis using True by (simp add: nth_append py_lt_imp_le)
  next
    case False
    with j have "j = length ys" by simp
    moreover have "k x \<noteq> NaN" using assms(2) py_lt_no_NaN by blast
    ultimately show ?thesis by (simp add: py_le_refl)
  qed
next
  fix j assume j: "j < length ys"
  then have "py_le (k (ys ! i)) (k (ys ! j))"
    using assms(1) by (simp add: primero_en_def)
  with assms(2) have "py_lt (k x) (k (ys ! j))" by (rule py_lt_le_trans)
  then show "py_lt (k ((ys @ [x]) ! length ys)) (k ((ys @ [x]) ! j))"
    using j by (simp add: nth_append)
qed

lemma primero_en_snoc_ge:
  assumes "primero_en k ys i" "\<not> py_lt (k x) (k (ys ! i))" "k x \<noteq> NaN"
  shows "primero_en k (ys @ [x]) i"
  unfolding primero_en_def
proof (intro conjI allI impI)
  have i: "i < length ys" using assms(1) by (simp add: primero_en_def)
  then show "i < length (ys @ [x])" by simp
  have ii: "py_le (k (ys ! i)) (k (ys ! i))"
    using assms(1) i by (simp add: primero_en_def)
  then have nn: "k (ys ! i) \<noteq> NaN" using py_le_no_NaN by blast
  fix j assume j: "j < length (ys @ [x])"
  show "py_le (k ((ys @ [x]) ! i)) (k ((ys @ [x]) ! j))"
  proof (cases "j < length ys")
    case True
    then show ?thesis using assms(1) i by (simp add: primero_en_def nth_append)
  next
    case False
    with j have "j = length ys" by simp
    moreover have "py_le (k (ys ! i)) (k x)"
      using assms(2,3) nn by (intro py_not_lt) simp_all
    ultimately show ?thesis using i by (simp add: nth_append)
  qed
next
  have i: "i < length ys" using assms(1) by (simp add: primero_en_def)
  fix j assume "j < i"
  then show "py_lt (k ((ys @ [x]) ! i)) (k ((ys @ [x]) ! j))"
    using assms(1) i by (simp add: primero_en_def nth_append)
qed

lemma min_desde_pos:
  assumes "\<forall>x\<in>set (b # xs). precio x \<noteq> NaN"
  shows "\<exists>i. primero_en precio (b # xs) i \<and>
             min_desde price_of b (precio b) xs = Inr ((b # xs) ! i)"
  using assms
proof (induction xs rule: rev_induct)
  case Nil
  then show ?case by (auto simp: primero_en_def py_le_refl)
next
  case (snoc x xs)
  then have nx: "precio x \<noteq> NaN" by simp
  from snoc obtain i where i: "primero_en precio (b # xs) i"
      "min_desde price_of b (precio b) xs = Inr ((b # xs) ! i)"
    by auto
  from i(1) have len: "i < length (b # xs)"
    unfolding primero_en_def by blast
  show ?case
  proof (cases "py_lt (precio x) (precio ((b # xs) ! i))")
    case True
    with i have "primero_en precio ((b # xs) @ [x]) (length (b # xs))"
      by (intro primero_en_snoc_lt[of precio _ i]) simp_all
    moreover have "min_desde price_of b (precio b) (xs @ [x]) =
        Inr (((b # xs) @ [x]) ! length (b # xs))"
      using True i(2) by (simp only: min_desde_snoc nth_append_length sum.case if_True)
    ultimately show ?thesis by (metis append_Cons)
  next
    case False
    with i nx have "primero_en precio ((b # xs) @ [x]) i"
      by (intro primero_en_snoc_ge) simp_all
    moreover have "((b # xs) @ [x]) ! i = (b # xs) ! i"
      using len by (simp only: nth_append if_True)
    then have "min_desde price_of b (precio b) (xs @ [x]) = Inr (((b # xs) @ [x]) ! i)"
      using False i(2) by (simp only: min_desde_snoc sum.case if_False)
    ultimately show ?thesis by (metis append_Cons)
  qed
qed

lemma py_min_pos:
  assumes "cs \<noteq> []" "\<forall>x\<in>set cs. precio x \<noteq> NaN"
  shows "\<exists>i. primero_en precio cs i \<and> py_min price_of cs = Inr (cs ! i)"
proof -
  from assms(1) obtain c rest where cs: "cs = c # rest" by (cases cs) auto
  with min_desde_pos[of c rest] assms(2) show ?thesis
    by (simp add: price_of_precio)
qed

lemma py_min_returns: "cs \<noteq> [] \<Longrightarrow> \<exists>m. py_min price_of cs = Inr m"
proof -
  have "\<exists>m. min_desde price_of b kb xs = Inr m" for b kb xs
    by (induction xs arbitrary: b kb) (simp_all add: price_of_precio)
  then show "cs \<noteq> [] \<Longrightarrow> \<exists>m. py_min price_of cs = Inr m"
    by (cases cs) (simp_all add: price_of_precio)
qed

lemma elegir_returns: "\<exists>best. elegir cfg cands best_offer = Inr best"
proof (cases "cands = []")
  case True
  then show ?thesis by (simp add: elegir_def)
next
  case False
  with py_min_returns obtain m where "py_min price_of cands = Inr m" by blast
  with False show ?thesis
    by (simp add: elegir_def price_of_precio split: option.splits)
qed

lemma primero_en_append:
  assumes "primero_en k xs i" "primero_en k ys j"
  shows "primero_en k (xs @ ys) (if py_lt (k (ys ! j)) (k (xs ! i)) then length xs + j else i)"
proof (cases "py_lt (k (ys ! j)) (k (xs ! i))")
  case True
  have "primero_en k (xs @ ys) (length xs + j)"
    unfolding primero_en_def
  proof (intro conjI allI impI)
    show "length xs + j < length (xs @ ys)"
      using assms(2) by (simp add: primero_en_def)
  next
    fix m assume m: "m < length (xs @ ys)"
    show "py_le (k ((xs @ ys) ! (length xs + j))) (k ((xs @ ys) ! m))"
    proof (cases "m < length xs")
      case T: True
      then have "py_le (k (xs ! i)) (k (xs ! m))"
        using assms(1) by (simp add: primero_en_def)
      with True have "py_lt (k (ys ! j)) (k (xs ! m))" by (rule py_lt_le_trans)
      then show ?thesis using T by (simp add: nth_append py_lt_imp_le)
    next
      case False
      with m have "m - length xs < length ys" by simp
      then have "py_le (k (ys ! j)) (k (ys ! (m - length xs)))"
        using assms(2) by (simp add: primero_en_def)
      with False show ?thesis by (simp add: nth_append)
    qed
  next
    fix m assume m: "m < length xs + j"
    show "py_lt (k ((xs @ ys) ! (length xs + j))) (k ((xs @ ys) ! m))"
    proof (cases "m < length xs")
      case T: True
      then have "py_le (k (xs ! i)) (k (xs ! m))"
        using assms(1) by (simp add: primero_en_def)
      with True have "py_lt (k (ys ! j)) (k (xs ! m))" by (rule py_lt_le_trans)
      then show ?thesis using T by (simp add: nth_append)
    next
      case False
      with m have "m - length xs < j" by simp
      then have "py_lt (k (ys ! j)) (k (ys ! (m - length xs)))"
        using assms(2) by (simp add: primero_en_def)
      with False show ?thesis by (simp add: nth_append)
    qed
  qed
  with True show ?thesis by simp
next
  case False
  have i: "i < length xs"
    using assms(1) by (simp add: primero_en_def)
  have j: "j < length ys"
    using assms(2) by (simp add: primero_en_def)
  have "py_le (k (xs ! i)) (k (xs ! i))" using assms(1) i by (simp add: primero_en_def)
  then have ni: "k (xs ! i) \<noteq> NaN" using py_le_no_NaN by blast
  have "py_le (k (ys ! j)) (k (ys ! j))" using assms(2) j by (simp add: primero_en_def)
  then have nj: "k (ys ! j) \<noteq> NaN" using py_le_no_NaN by blast
  have ij: "py_le (k (xs ! i)) (k (ys ! j))"
    using False ni nj by (intro py_not_lt) simp_all
  have "primero_en k (xs @ ys) i"
    unfolding primero_en_def
  proof (intro conjI allI impI)
    show "i < length (xs @ ys)" using i by simp
  next
    fix m assume m: "m < length (xs @ ys)"
    show "py_le (k ((xs @ ys) ! i)) (k ((xs @ ys) ! m))"
    proof (cases "m < length xs")
      case True
      then show ?thesis
        using assms(1) i by (simp add: primero_en_def nth_append)
    next
      case F: False
      with m have "m - length xs < length ys" by simp
      then have "py_le (k (ys ! j)) (k (ys ! (m - length xs)))"
        using assms(2) by (simp add: primero_en_def)
      with ij have "py_le (k (xs ! i)) (k (ys ! (m - length xs)))" by (rule py_le_trans)
      then show ?thesis using F i by (simp add: nth_append)
    qed
  next
    fix m assume "m < i"
    then show "py_lt (k ((xs @ ys) ! i)) (k ((xs @ ys) ! m))"
      using assms(1) i by (simp add: primero_en_def nth_append)
  qed
  with False show ?thesis by simp
qed

lemma seleccion_paso:
  assumes "seleccion cfg seen best" "\<forall>c\<in>set cands. precio c \<noteq> NaN"
  shows "\<exists>best'. elegir cfg cands best = Inr best' \<and> seleccion cfg (seen @ cands) best'"
proof (cases "cands = []")
  case True
  with assms(1) show ?thesis by (simp add: elegir_def)
next
  case ne: False
  from py_min_pos[OF ne assms(2)] obtain j where
    j: "primero_en precio cands j" "py_min price_of cands = Inr (cands ! j)"
    by blast
  show ?thesis
  proof (cases best)
    case None
    with assms(1) have "seen = []" by (simp add: seleccion_def)
    with None j ne show ?thesis by (auto simp: seleccion_def elegir_def)
  next
    case (Some b)
    with assms(1) obtain i where i: "primero_en precio seen i" "b = marcar cfg (seen ! i)"
      by (auto simp: seleccion_def)
    have il: "i < length seen" using i(1) by (simp add: primero_en_def)
    have pb: "precio b = precio (seen ! i)" by (simp add: i(2) precio_marcar)
    let ?n = "if py_lt (precio (cands ! j)) (precio (seen ! i)) then length seen + j else i"
    have pe: "primero_en precio (seen @ cands) ?n"
      using primero_en_append[OF i(1) j(1)] .
    show ?thesis
    proof (cases "py_lt (precio (cands ! j)) (precio b)")
      case True
      then have "?n = length seen + j" using pb by simp
      with pe have "primero_en precio (seen @ cands) (length seen + j)" by simp
      moreover have "(seen @ cands) ! (length seen + j) = cands ! j"
        by (simp add: nth_append)
      moreover have "elegir cfg cands best = Inr (Some (marcar cfg (cands ! j)))"
        using ne j(2) Some True by (simp add: elegir_def price_of_precio)
      ultimately show ?thesis
        by (auto simp: seleccion_def)
    next
      case False
      then have "?n = i" using pb by simp
      with pe have "primero_en precio (seen @ cands) i" by simp
      moreover have "(seen @ cands) ! i = seen ! i"
        using il by (simp add: nth_append)
      moreover have "elegir cfg cands best = Inr (Some b)"
        using ne j(2) Some False by (simp add: elegir_def price_of_precio)
      ultimately show ?thesis using i(2)
        by (auto simp: seleccion_def)
    qed
  qed
qed

lemma bucle_seleccion:
  assumes "bucle cfg env ds n best = Inr r" "seleccion cfg seen best"
    and "\<forall>c\<in>set (concat (map (candidatos_de cfg env) (fechas_consumidas cfg ds n))).
            precio c \<noteq> NaN"
  shows "seleccion cfg (seen @ concat (map (candidatos_de cfg env) (fechas_consumidas cfg ds n))) r"
  using assms
proof (induction ds arbitrary: n best seen)
  case Nil
  then show ?case by simp
next
  case (Cons d ds)
  show ?case
  proof (cases "MAX_DIAS cfg \<le> n")
    case True
    with Cons.prems show ?thesis by simp
  next
    case False
    show ?thesis
    proof (cases "candidatos_fecha cfg env d")
      case (Inl e)
      with False Cons.prems show ?thesis by simp
    next
      case (Inr cands)
      then have cd: "candidatos_de cfg env d = cands" by (simp add: candidatos_de_def)
      from Cons.prems(3) False cd have nan: "\<forall>c\<in>set cands. precio c \<noteq> NaN"
        and nan': "\<forall>c\<in>set (concat (map (candidatos_de cfg env)
                      (fechas_consumidas cfg ds (n + 1)))). precio c \<noteq> NaN"
        by auto
      from seleccion_paso[OF Cons.prems(2) nan] obtain best' where
        b: "elegir cfg cands best = Inr best'" "seleccion cfg (seen @ cands) best'"
        by blast
      from Cons.prems(1) False Inr b(1) have "bucle cfg env ds (n + 1) best' = Inr r"
        by (simp split: sum.splits)
      from Cons.IH[OF this b(2) nan'] False cd show ?thesis by simp
    qed
  qed
qed

lemma buscar_seleccion:
  assumes "buscar_mejor_precio_amadeus cfg env = Inr r"
    and "\<forall>c\<in>set (candidatos_ventana cfg env). precio c \<noteq> NaN"
  shows "seleccion cfg (candidatos_ventana cfg env) r"
proof -
  from assms(1) have
    "bucle cfg env (daterange (FECHA_DESDE cfg) (FECHA_HASTA cfg)) 0 None = Inr r"
    by (simp add: buscar_mejor_precio_amadeus_def split: sum.splits)
  from bucle_seleccion[OF this, of "[]"] assms(2) show ?thesis
    by (simp add: seleccion_def candidatos_ventana_def)
qed

section \<open>The order of the enumeration\<close>

lemma barrido_noches_orden:
  assumes "barrido_noches cfg env d ns acc = Inr cs" "sorted ns"
    and "sorted_wrt (\<lambda>a b. \<exists>m n. nights_tag a = Some m \<and> nights_tag b = Some n \<and> m \<le> n) acc"
    and "\<forall>a\<in>set acc. \<exists>m. nights_tag a = Some m \<and> (\<forall>n\<in>set ns. m \<le> n)"
  shows "sorted_wrt (\<lambda>a b. \<exists>m n. nights_tag a = Some m \<and> nights_tag b = Some n \<and> m \<le> n) cs"
  using assms
proof (induction ns arbitrary: acc)
  case Nil
  then show ?case by simp
next
  case (Cons n ns)
  from Cons.prems(1) obtain ret data where
    r: "date_add d n = Inr ret" "do_request env (params_de cfg d (Some ret)) = Inr data"
      "barrido_noches cfg env d ns
         (acc @ map (\<lambda>item. item\<lparr>nights_tag := Some n\<rparr>) data) = Inr cs"
    by (auto split: sum.splits)
  let ?acc = "acc @ map (\<lambda>item. item\<lparr>nights_tag := Some n\<rparr>) data"
  from Cons.prems(2) have s: "sorted ns" and le: "\<forall>n'\<in>set ns. n \<le> n'" by simp_all
  have a: "sorted_wrt (\<lambda>a b. \<exists>m n. nights_tag a = Some m \<and> nights_tag b = Some n \<and> m \<le> n) ?acc"
    using Cons.prems(3,4) by (auto simp: sorted_wrt_append sorted_wrt_map)
  have b: "\<forall>a\<in>set ?acc. \<exists>m. nights_tag a = Some m \<and> (\<forall>n\<in>set ns. m \<le> n)"
    using Cons.prems(4) le by auto
  from Cons.IH[OF r(3) s a b] show ?case .
qed

lemma candidatos_de_orden:
  assumes "\<not> SOLO_IDA cfg"
  shows "sorted_wrt (\<lambda>a b. \<exists>m n. nights_tag a = Some m \<and> nights_tag b = Some n \<and> m \<le> n)
           (candidatos_de cfg env d)"
proof (cases "candidatos_fecha cfg env d")
  case (Inl e)
  then show ?thesis by (simp add: candidatos_de_def)
next
  case (Inr cs)
  with assms have "barrido_noches cfg env d [NOCHES_MIN cfg..NOCHES_MAX cfg] [] = Inr cs"
    by (simp add: candidatos_fecha_def)
  from barrido_noches_orden[OF this] Inr show ?thesis
    by (simp add: candidatos_de_def)
qed

section \<open>The search returns\<close>

lemma date_add_Inr:
  assumes "1 \<le> d" "d \<le> date_max" "1 \<le> d + n" "d + n \<le> date_max"
  shows "date_add d n = Inr (d + n)"
  using assms by (simp add: date_add_def date_max_def)

lemma barrido_noches_returns:
  assumes "\<forall>p. \<exists>data. do_request env p = Inr data"
    and "1 \<le> d" "d \<le> date_max"
    and "\<forall>n\<in>set ns. 1 \<le> d + n \<and> d + n \<le> date_max"
  shows "\<exists>cs. barrido_noches cfg env d ns acc = Inr cs"
  using assms(4)
proof (induction ns arbitrary: acc)
  case Nil
  show ?case by simp
next
  case (Cons n ns)
  from assms(1) obtain data where
    "do_request env (params_de cfg d (Some (d + n))) = Inr data" by blast
  moreover from Cons.prems assms(2,3) have "date_add d n = Inr (d + n)"
    by (intro date_add_Inr) simp_all
  moreover from Cons have "\<exists>cs. barrido_noches cfg env d ns
      (acc @ map (\<lambda>item. item\<lparr>nights_tag := Some n\<rparr>) data) = Inr cs" by simp
  ultimately show ?case by simp
qed

lemma candidatos_fecha_returns:
  assumes "\<forall>p. \<exists>data. do_request env p = Inr data"
    and "1 \<le> d" "d \<le> date_max"
    and "\<not> SOLO_IDA cfg \<longrightarrow>
           (\<forall>n\<in>set [NOCHES_MIN cfg..NOCHES_MAX cfg]. 1 \<le> d + n \<and> d + n \<le> date_max)"
  shows "\<exists>cs. candidatos_fecha cfg env d = Inr cs"
proof (cases "SOLO_IDA cfg")
  case True
  with assms(1) show ?thesis by (simp add: candidatos_fecha_def)
next
  case False
  with assms(4) barrido_noches_returns[OF assms(1,2,3)] show ?thesis
    by (simp add: candidatos_fecha_def)
qed

lemma bucle_returns:
  assumes "\<forall>p. \<exists>data. do_request env p = Inr data"
    and "\<forall>d\<in>set (fechas_consumidas cfg ds n). 1 \<le> d \<and> d < date_max \<and>
           (\<not> SOLO_IDA cfg \<longrightarrow>
              (\<forall>n\<in>set [NOCHES_MIN cfg..NOCHES_MAX cfg]. 1 \<le> d + n \<and> d + n \<le> date_max))"
  shows "\<exists>r. bucle cfg env ds n best = Inr r"
  using assms(2)
proof (induction ds arbitrary: n best)
  case Nil
  show ?case by simp
next
  case (Cons d ds)
  show ?case
  proof (cases "MAX_DIAS cfg \<le> n")
    case True
    then show ?thesis by simp
  next
    case False
    with Cons.prems have d: "1 \<le> d" "d < date_max"
      "\<not> SOLO_IDA cfg \<longrightarrow>
         (\<forall>n\<in>set [NOCHES_MIN cfg..NOCHES_MAX cfg]. 1 \<le> d + n \<and> d + n \<le> date_max)"
      and rest: "\<forall>d\<in>set (fechas_consumidas cfg ds (n + 1)). 1 \<le> d \<and> d < date_max \<and>
           (\<not> SOLO_IDA cfg \<longrightarrow>
              (\<forall>n\<in>set [NOCHES_MIN cfg..NOCHES_MAX cfg]. 1 \<le> d + n \<and> d + n \<le> date_max))"
      by simp_all
    from d(2) have dm: "d \<le> date_max" by simp
    from candidatos_fecha_returns[OF assms(1) d(1) dm d(3)] obtain cs where
      cs: "candidatos_fecha cfg env d = Inr cs" by blast
    from elegir_returns obtain best' where b: "elegir cfg cs best = Inr best'" by blast
    from d have a: "date_add d 1 = Inr (d + 1)" by (intro date_add_Inr) simp_all
    from Cons.IH[OF rest] obtain r where "bucle cfg env ds (n + 1) best' = Inr r" by blast
    with False cs b a show ?thesis by simp
  qed
qed

section \<open>The example runs, evaluated\<close>

lemma daterange_ej: "daterange 100 101 = [100, 101]"
  by (simp add: daterange.simps)

lemma fechas_ej: "date_add 100 7 = Inr 107" "date_add 100 8 = Inr 108"
  "date_add 101 7 = Inr 108" "date_add 101 8 = Inr 109"
  "date_add 100 1 = Inr 101" "date_add 101 1 = Inr 102"
  by (simp_all add: date_add_def date_max_def)

lemma candidatos_fecha_ej_100:
  "candidatos_fecha config_ej entorno_ej 100 =
     Inr [(oferta_ej ''A'' (Inr (Fin 500)))\<lparr>nights_tag := Some 8\<rparr>,
          (oferta_ej ''B'' (Inl ValueError))\<lparr>nights_tag := Some 8\<rparr>]"
  by (simp add: candidatos_fecha_def config_ej_def config_fuente_def entorno_ej_def
      respuestas_ej_def params_de_def upto.simps fechas_ej)

lemma candidatos_fecha_ej_101:
  "candidatos_fecha config_ej entorno_ej 101 =
     Inr [(oferta_ej ''C'' (Inr (Fin 450)))\<lparr>nights_tag := Some 7\<rparr>,
          (oferta_ej ''D'' (Inr (Fin 450)))\<lparr>nights_tag := Some 7\<rparr>]"
  by (simp add: candidatos_fecha_def config_ej_def config_fuente_def entorno_ej_def
      respuestas_ej_def params_de_def upto.simps fechas_ej)

lemma ventana_ej: "FECHA_DESDE config_ej = 100" "FECHA_HASTA config_ej = 101"
  "MAX_DIAS config_ej = 20" "SOLO_IDA config_ej = False"
  "ORIGEN config_ej = ''EZE''" "DESTINO config_ej = ''MAD''"
  "PRECIO_OBJETIVO config_ej = 600" "BAJA_MINIMA_PCT config_ej = 8"
  "NOCHES_MIN config_ej = 7" "NOCHES_MAX config_ej = 8"
  by (simp_all add: config_ej_def config_fuente_def)

lemma buscar_ej:
  "buscar_mejor_precio_amadeus config_ej entorno_ej =
     Inr (Some ((oferta_ej ''C'' (Inr (Fin 450)))
       \<lparr>nights_tag := Some 7, route_summary := Some (''EZE'', ''MAD'')\<rparr>))"
proof -
  have token: "get_amadeus_token entorno_ej = Inr ''token''"
    by (simp add: entorno_ej_def)
  show ?thesis
    by (simp add: buscar_mejor_precio_amadeus_def token ventana_ej daterange_ej
        candidatos_fecha_ej_100 candidatos_fecha_ej_101 marcar_def price_of_def
        oferta_ej_def elegir_def fechas_ej Let_def)
qed

lemma candidatos_ventana_ej:
  "candidatos_ventana config_ej entorno_ej =
     [(oferta_ej ''A'' (Inr (Fin 500)))\<lparr>nights_tag := Some 8\<rparr>,
      (oferta_ej ''B'' (Inl ValueError))\<lparr>nights_tag := Some 8\<rparr>,
      (oferta_ej ''C'' (Inr (Fin 450)))\<lparr>nights_tag := Some 7\<rparr>,
      (oferta_ej ''D'' (Inr (Fin 450)))\<lparr>nights_tag := Some 7\<rparr>]"
  by (simp add: candidatos_ventana_def candidatos_de_def ventana_ej daterange_ej
      candidatos_fecha_ej_100 candidatos_fecha_ej_101)

lemma un_dia: "FECHA_DESDE config_un_dia = 100" "FECHA_HASTA config_un_dia = 100"
  "MAX_DIAS config_un_dia = 20" "SOLO_IDA config_un_dia = True"
  "ORIGEN config_un_dia = ''EZE''" "DESTINO config_un_dia = ''MAD''"
  "PRECIO_OBJETIVO config_un_dia = 600" "BAJA_MINIMA_PCT config_un_dia = 8"
  by (simp_all add: config_un_dia_def config_fuente_def)

lemma entorno_con_simps: "credenciales (entorno_con cs)"
  "get_amadeus_token (entorno_con cs) = Inr ''token''"
  "do_request (entorno_con cs) p = Inr cs"
  "send_telegram (entorno_con cs) = Inr ()"
  "ahora (entorno_con cs) = ''2025-10-01T08:00:00''"
  by (simp_all add: entorno_con_def)

lemma daterange_un_dia: "daterange 100 100 = [100]"
  by (simp add: daterange.simps)

lemma candidatos_un_dia: "candidatos_fecha config_un_dia (entorno_con cs) d = Inr cs"
  by (simp add: candidatos_fecha_def un_dia entorno_con_simps)

lemma ventana_un_dia: "candidatos_ventana config_un_dia (entorno_con cs) = cs"
  by (simp add: candidatos_ventana_def candidatos_de_def un_dia daterange_un_dia
      candidatos_un_dia)

lemma buscar_un_dia_vacio:
  "buscar_mejor_precio_amadeus config_un_dia (entorno_con []) = Inr None"
  by (simp add: buscar_mejor_precio_amadeus_def un_dia daterange_un_dia
      candidatos_un_dia entorno_con_simps elegir_def fechas_ej)

lemma buscar_un_dia_uno:
  "buscar_mejor_precio_amadeus config_un_dia (entorno_con [c]) =
     Inr (Some (c\<lparr>route_summary := Some (''EZE'', ''MAD'')\<rparr>))"
  by (simp add: buscar_mejor_precio_amadeus_def un_dia daterange_un_dia
      candidatos_un_dia entorno_con_simps marcar_def elegir_def price_of_precio fechas_ej
      Let_def)

lemma buscar_un_dia_dos:
  "buscar_mejor_precio_amadeus config_un_dia (entorno_con [c, c']) =
     Inr (Some ((if py_lt (precio c') (precio c) then c' else c)
        \<lparr>route_summary := Some (''EZE'', ''MAD'')\<rparr>))"
  by (simp add: buscar_mejor_precio_amadeus_def un_dia daterange_un_dia
      candidatos_un_dia entorno_con_simps marcar_def elegir_def price_of_precio fechas_ej
      Let_def)

lemma ultimo_dia: "FECHA_DESDE config_ultimo_dia = 3652059"
  "FECHA_HASTA config_ultimo_dia = 3652059"
  "MAX_DIAS config_ultimo_dia = 20" "SOLO_IDA config_ultimo_dia = True"
  by (simp_all add: config_ultimo_dia_def config_fuente_def)

lemma daterange_ultimo_dia: "daterange 3652059 3652059 = [3652059]"
  by (simp add: daterange.simps)

lemma buscar_ultimo_dia:
  "buscar_mejor_precio_amadeus config_ultimo_dia (entorno_con []) = Inl OverflowError"
  by (simp add: buscar_mejor_precio_amadeus_def ultimo_dia daterange_ultimo_dia
      candidatos_fecha_def entorno_con_simps elegir_def date_add_def date_max_def)

lemma ventana_ultimo_dia: "candidatos_ventana config_ultimo_dia (entorno_con []) = []"
  by (simp add: candidatos_ventana_def candidatos_de_def ultimo_dia daterange_ultimo_dia
      candidatos_fecha_def entorno_con_simps)

lemma drop_ej: "drop_pct (Fin 650) (Fin 600) = Inr (Fin (769 / 100))"
  by (simp add: drop_pct_def py_div_def round_half_even_def Let_def)

lemma drop_ej_520: "drop_pct (Fin 500) (Fin 520) = Inr (Fin (- 4))"
  by (simp add: drop_pct_def py_div_def round_half_even_def Let_def)

lemma drop_ej_neg: "drop_pct (Fin (- 100)) (Fin (- 50)) = Inr (Fin 50)"
  by (simp add: drop_pct_def py_div_def round_half_even_def Let_def)

lemma drop_ej_inf: "drop_pct PInf PInf = Inr NaN"
  by (simp add: drop_pct_def py_div_def)

lemma decidir_ej_520:
  "decidir config_fuente ''t1'' ruta_ej (estado_ej (Some (Fin 500))) (Fin 520) =
     Inr (\<lparr>debe_alertar = True, motivos = [PrecioObjetivo]\<rparr>, estado_ej (Some (Fin 500)))"
  by (simp add: decidir_def drop_ej_520 objetivo_def estado_ej_def config_fuente_def)

lemma carriers_ej: "carriers_str (oferta_ej n t) = Inr ''N/D''"
  by (simp add: carriers_str_def carriers_de_def oferta_ej_def)

lemma carriers_route: "carriers_str (c\<lparr>route_summary := r\<rparr>) = carriers_str c"
  by (simp add: carriers_str_def carriers_de_def)

lemma carriers_con_codigo:
  "carriers_str (oferta_con_codigo (Cadena ''AR'')) = Inr ''AR''"
  "carriers_str (oferta_con_codigo NoCadena) = Inl TypeError"
  by (simp_all add: carriers_str_def carriers_de_def oferta_con_codigo_def)

lemma oferta_ej_simps: "total (oferta_ej n t) = t" "route_summary (oferta_ej n t) = None"
  "nights_tag (oferta_ej n t) = None" "itineraries (oferta_ej n t) = Some []"
  by (simp_all add: oferta_ej_def)

section \<open>The enumerated dates\<close>

lemma daterange_upto: "daterange d1 d2 = [d1..d2]"
proof (induction d1 d2 rule: daterange.induct)
  case (1 d1 d2)
  show ?case
  proof (cases "d1 \<le> d2")
    case True
    with "1" have "daterange (d1 + 1) d2 = [d1 + 1..d2]" by simp
    with True show ?thesis
      by (subst daterange.simps) (simp add: upto_rec1)
  next
    case False
    then show ?thesis by (subst daterange.simps) simp
  qed
qed

lemma fechas_consumidas_take:
  "fechas_consumidas cfg ds n = take (nat (MAX_DIAS cfg - n)) ds"
proof (induction ds arbitrary: n)
  case Nil
  show ?case by simp
next
  case (Cons d ds)
  show ?case
  proof (cases "MAX_DIAS cfg \<le> n")
    case True
    then show ?thesis by simp
  next
    case False
    then have "nat (MAX_DIAS cfg - n) = Suc (nat (MAX_DIAS cfg - (n + 1)))" by simp
    with False Cons.IH[of "n + 1"] show ?thesis by simp
  qed
qed

lemma daterange_estricto: "sorted_wrt (<) [d1..d2]"
  by (simp add: strict_sorted_iff)

text \<open>
  C6. For a window with start not after end and a positive cap, \<open>daterange\<close> yields the
  start first, then each next day, in strictly ascending order, exactly the dates of
  \<open>{d1..d2}\<close>; the loop consumes the first \<open>MAX_DIAS\<close> of them at most: a prefix, so
  ascending, from the start and inside the window.
\<close>

theorem C6_fechas_ascendentes:
  assumes "d1 \<le> d2" "0 < MAX_DIAS cfg"
  shows "daterange d1 d2 \<noteq> [] \<and> hd (daterange d1 d2) = d1 \<and>
         sorted_wrt (<) (daterange d1 d2) \<and>
         (\<forall>i. Suc i < length (daterange d1 d2) \<longrightarrow>
              daterange d1 d2 ! Suc i = daterange d1 d2 ! i + 1) \<and>
         set (daterange d1 d2) = {d1..d2} \<and>
         fechas_consumidas cfg (daterange d1 d2) 0 =
           take (nat (MAX_DIAS cfg)) (daterange d1 d2) \<and>
         int (length (fechas_consumidas cfg (daterange d1 d2) 0)) \<le> MAX_DIAS cfg \<and>
         hd (fechas_consumidas cfg (daterange d1 d2) 0) = d1 \<and>
         sorted_wrt (<) (fechas_consumidas cfg (daterange d1 d2) 0) \<and>
         set (fechas_consumidas cfg (daterange d1 d2) 0) \<subseteq> {d1..d2}"
proof -
  let ?ys = "daterange d1 d2"
  let ?cs = "fechas_consumidas cfg ?ys 0"
  have ys: "?ys = [d1..d2]" by (rule daterange_upto)
  have cs: "?cs = take (nat (MAX_DIAS cfg)) ?ys"
    using fechas_consumidas_take[of cfg ?ys 0] by simp
  have ne: "?ys \<noteq> []" using assms(1) by (simp add: ys)
  have h: "hd ?ys = d1" using assms(1) by (simp add: ys upto_rec1)
  have s: "sorted_wrt (<) ?ys" by (simp add: ys daterange_estricto)
  have st: "\<forall>i. Suc i < length ?ys \<longrightarrow> ?ys ! Suc i = ?ys ! i + 1"
    by (simp add: ys)
  have se: "set ?ys = {d1..d2}" by (simp add: ys)
  have pos: "0 < nat (MAX_DIAS cfg)" using assms(2) by simp
  have len: "int (length ?cs) \<le> MAX_DIAS cfg"
    using assms(2) by (simp add: cs)
  have hc: "hd ?cs = d1"
    using pos h by (simp add: cs hd_take)
  have sc: "sorted_wrt (<) ?cs"
    unfolding cs using s by (rule sorted_wrt_take)
  have sub: "set ?cs \<subseteq> {d1..d2}"
    using set_take_subset[of "nat (MAX_DIAS cfg)" ?ys] by (simp only: cs se)
  from ne h s st se cs len hc sc sub show ?thesis by blast
qed

theorem C6_fechas_ascendentes_witness:
  "(100::int) \<le> 104 \<and> 0 < MAX_DIAS config_tope \<and>
   daterange 100 104 = [100, 101, 102, 103, 104] \<and>
   fechas_consumidas config_tope (daterange 100 104) 0 = [100, 101, 102] \<and>
   sorted_wrt (<) (fechas_consumidas config_tope (daterange 100 104) 0) \<and>
   int (length (fechas_consumidas config_tope (daterange 100 104) 0)) \<le> MAX_DIAS config_tope"
proof -
  have a: "(100::int) \<le> 104" by simp
  have b: "0 < MAX_DIAS config_tope" by (simp add: config_tope_def config_fuente_def)
  have c: "daterange 100 104 = [100, 101, 102, 103, 104]"
    by (simp add: daterange.simps)
  have d: "fechas_consumidas config_tope (daterange 100 104) 0 = [100, 101, 102]"
    by (simp add: c config_tope_def config_fuente_def)
  from C6_fechas_ascendentes[OF a b] a b c d show ?thesis by metis
qed

lemma daterange_invertida: "d2 < d1 \<Longrightarrow> daterange d1 d2 = []"
  by (subst daterange.simps) simp

text \<open>
  C7, as the program behaves. For a window whose start is after its end, \<open>daterange\<close>
  yields no date and raises nothing; the search then asks for no offer and returns
  \<open>None\<close> (or fails with the error of the token request, the only call it makes).
\<close>

theorem C7_ventana_invertida:
  assumes "FECHA_HASTA cfg < FECHA_DESDE cfg"
  shows "daterange (FECHA_DESDE cfg) (FECHA_HASTA cfg) = [] \<and>
         buscar_mejor_precio_amadeus cfg env =
           (case get_amadeus_token env of Inl e \<Rightarrow> Inl e | Inr token \<Rightarrow> Inr None)"
  using assms
  by (simp add: buscar_mejor_precio_amadeus_def daterange_invertida split: sum.splits)

lemma invertida: "FECHA_DESDE config_invertida = 739600" "FECHA_HASTA config_invertida = 739556"
  by (simp_all add: config_invertida_def config_fuente_def)

theorem C7_ventana_invertida_witness:
  "FECHA_HASTA config_invertida < FECHA_DESDE config_invertida \<and>
   daterange (FECHA_DESDE config_invertida) (FECHA_HASTA config_invertida) = [] \<and>
   buscar_mejor_precio_amadeus config_invertida entorno_ej = Inr None"
proof -
  have a: "FECHA_HASTA config_invertida < FECHA_DESDE config_invertida"
    by (simp add: invertida)
  have t: "get_amadeus_token entorno_ej = Inr ''token''"
    by (simp add: entorno_ej_def)
  from C7_ventana_invertida[OF a, of entorno_ej] a show ?thesis
    by (simp add: t)
qed

text \<open>
  The window of the source written backwards: no date, no error, and the run ends at
  line 198 with no offer.
\<close>

theorem C7_counterexample:
  "FECHA_HASTA config_invertida < FECHA_DESDE config_invertida \<and>
   daterange 739600 739556 = [] \<and>
   buscar_mejor_precio_amadeus config_invertida entorno_ej = Inr None \<and>
   main config_invertida entorno_ej (estado_ej None) =
     \<lparr>eventos = [], archivo = estado_ej None, resultado = Inr None\<rparr>"
proof -
  have d: "daterange 739600 739556 = []" by (simp add: daterange.simps)
  have e: "credenciales entorno_ej" "get_amadeus_token entorno_ej = Inr ''token''"
    by (simp_all add: entorno_ej_def)
  have b: "buscar_mejor_precio_amadeus config_invertida entorno_ej = Inr None"
    by (simp add: buscar_mejor_precio_amadeus_def invertida d e)
  show ?thesis by (simp add: d b main_def e invertida)
qed

section \<open>The selected offer\<close>

text \<open>
  C1, for the runs in which nothing fails. Let the token request and every search
  request succeed, let the dates the loop consumes and the return dates computed from
  them lie inside the calendar, before its last day, and let no candidate have a total
  that reads as NaN. The candidates are enumerated by ascending date and, within a date
  of a round trip, by ascending nights. The search returns: \<open>None\<close> when there is no
  candidate; otherwise the candidate at some position \<open>i\<close> of that enumeration, marked
  with the route, whose price (as \<open>price_of\<close> gives it) is less than or equal to the
  price of every candidate and strictly less than the price of every candidate before
  position \<open>i\<close>.
\<close>

theorem C1_selector_minimo:
  "sorted_wrt (<)
     (fechas_consumidas cfg (daterange (FECHA_DESDE cfg) (FECHA_HASTA cfg)) 0) \<and>
   candidatos_ventana cfg env =
     concat (map (candidatos_de cfg env)
       (fechas_consumidas cfg (daterange (FECHA_DESDE cfg) (FECHA_HASTA cfg)) 0)) \<and>
   (\<forall>d. \<not> SOLO_IDA cfg \<longrightarrow>
      sorted_wrt (\<lambda>a b. \<exists>m n. nights_tag a = Some m \<and> nights_tag b = Some n \<and> m \<le> n)
        (candidatos_de cfg env d)) \<and>
   ((\<exists>token. get_amadeus_token env = Inr token) \<longrightarrow>
    (\<forall>p. \<exists>data. do_request env p = Inr data) \<longrightarrow>
    (\<forall>d\<in>set (fechas_consumidas cfg (daterange (FECHA_DESDE cfg) (FECHA_HASTA cfg)) 0).
       1 \<le> d \<and> d < date_max \<and>
       (\<not> SOLO_IDA cfg \<longrightarrow>
          (\<forall>n\<in>set [NOCHES_MIN cfg..NOCHES_MAX cfg]. 1 \<le> d + n \<and> d + n \<le> date_max))) \<longrightarrow>
    (\<forall>c\<in>set (candidatos_ventana cfg env). total c \<noteq> Inr NaN) \<longrightarrow>
    (\<exists>r. buscar_mejor_precio_amadeus cfg env = Inr r \<and>
       (candidatos_ventana cfg env = [] \<longrightarrow> r = None) \<and>
       (candidatos_ventana cfg env \<noteq> [] \<longrightarrow>
          (\<exists>i b. i < length (candidatos_ventana cfg env) \<and> r = Some b \<and>
             b = marcar cfg (candidatos_ventana cfg env ! i) \<and>
             (\<forall>c\<in>set (candidatos_ventana cfg env).
                \<exists>pb pc. price_of b = Inr pb \<and> price_of c = Inr pc \<and> py_le pb pc) \<and>
             (\<forall>j<i. \<exists>pb pj. price_of b = Inr pb \<and>
                price_of (candidatos_ventana cfg env ! j) = Inr pj \<and> py_lt pb pj)))))"
proof (intro conjI)
  show "sorted_wrt (<)
      (fechas_consumidas cfg (daterange (FECHA_DESDE cfg) (FECHA_HASTA cfg)) 0)"
    unfolding fechas_consumidas_take daterange_upto
    using daterange_estricto by (rule sorted_wrt_take)
next
  show "candidatos_ventana cfg env =
      concat (map (candidatos_de cfg env)
        (fechas_consumidas cfg (daterange (FECHA_DESDE cfg) (FECHA_HASTA cfg)) 0))"
    by (simp add: candidatos_ventana_def)
next
  show "\<forall>d. \<not> SOLO_IDA cfg \<longrightarrow>
      sorted_wrt (\<lambda>a b. \<exists>m n. nights_tag a = Some m \<and> nights_tag b = Some n \<and> m \<le> n)
        (candidatos_de cfg env d)"
    using candidatos_de_orden by blast
next
  let ?cs = "candidatos_ventana cfg env"
  let ?ds = "fechas_consumidas cfg (daterange (FECHA_DESDE cfg) (FECHA_HASTA cfg)) 0"
  show "(\<exists>token. get_amadeus_token env = Inr token) \<longrightarrow>
    (\<forall>p. \<exists>data. do_request env p = Inr data) \<longrightarrow>
    (\<forall>d\<in>set ?ds. 1 \<le> d \<and> d < date_max \<and>
       (\<not> SOLO_IDA cfg \<longrightarrow>
          (\<forall>n\<in>set [NOCHES_MIN cfg..NOCHES_MAX cfg]. 1 \<le> d + n \<and> d + n \<le> date_max))) \<longrightarrow>
    (\<forall>c\<in>set ?cs. total c \<noteq> Inr NaN) \<longrightarrow>
    (\<exists>r. buscar_mejor_precio_amadeus cfg env = Inr r \<and>
       (?cs = [] \<longrightarrow> r = None) \<and>
       (?cs \<noteq> [] \<longrightarrow>
          (\<exists>i b. i < length ?cs \<and> r = Some b \<and> b = marcar cfg (?cs ! i) \<and>
             (\<forall>c\<in>set ?cs.
                \<exists>pb pc. price_of b = Inr pb \<and> price_of c = Inr pc \<and> py_le pb pc) \<and>
             (\<forall>j<i. \<exists>pb pj. price_of b = Inr pb \<and>
                price_of (?cs ! j) = Inr pj \<and> py_lt pb pj))))"
  proof (intro impI)
    assume tok: "\<exists>token. get_amadeus_token env = Inr token"
      and req: "\<forall>p. \<exists>data. do_request env p = Inr data"
      and fechas: "\<forall>d\<in>set ?ds. 1 \<le> d \<and> d < date_max \<and>
         (\<not> SOLO_IDA cfg \<longrightarrow>
            (\<forall>n\<in>set [NOCHES_MIN cfg..NOCHES_MAX cfg]. 1 \<le> d + n \<and> d + n \<le> date_max))"
      and nan: "\<forall>c\<in>set ?cs. total c \<noteq> Inr NaN"
    from bucle_returns[OF req fechas] obtain r where
      "bucle cfg env (daterange (FECHA_DESDE cfg) (FECHA_HASTA cfg)) 0 None = Inr r"
      by blast
    with tok have r: "buscar_mejor_precio_amadeus cfg env = Inr r"
      by (auto simp: buscar_mejor_precio_amadeus_def)
    from nan have "\<forall>c\<in>set ?cs. precio c \<noteq> NaN" by (simp add: precio_NaN)
    from buscar_seleccion[OF r this] have s: "seleccion cfg ?cs r" .
    show "\<exists>r. buscar_mejor_precio_amadeus cfg env = Inr r \<and>
           (?cs = [] \<longrightarrow> r = None) \<and>
           (?cs \<noteq> [] \<longrightarrow>
              (\<exists>i b. i < length ?cs \<and> r = Some b \<and> b = marcar cfg (?cs ! i) \<and>
                 (\<forall>c\<in>set ?cs.
                    \<exists>pb pc. price_of b = Inr pb \<and> price_of c = Inr pc \<and> py_le pb pc) \<and>
                 (\<forall>j<i. \<exists>pb pj. price_of b = Inr pb \<and>
                    price_of (?cs ! j) = Inr pj \<and> py_lt pb pj)))"
    proof (cases r)
      case None
      with s r show ?thesis by (simp add: seleccion_def)
    next
      case (Some b)
      with s obtain i where i: "primero_en precio ?cs i" "b = marcar cfg (?cs ! i)"
        by (auto simp: seleccion_def)
      then have "i < length ?cs" by (simp add: primero_en_def)
      moreover have "\<forall>c\<in>set ?cs.
          \<exists>pb pc. price_of b = Inr pb \<and> price_of c = Inr pc \<and> py_le pb pc"
        using i by (auto simp: primero_en_def price_of_precio precio_marcar in_set_conv_nth)
      moreover have "\<forall>j<i. \<exists>pb pj. price_of b = Inr pb \<and>
          price_of (?cs ! j) = Inr pj \<and> py_lt pb pj"
        using i by (simp add: primero_en_def price_of_precio precio_marcar)
      ultimately show ?thesis using Some i(2) r by auto
    qed
  qed
qed

lemma respuestas_ej_Inr: "\<exists>data. respuestas_ej p = Inr data"
  by (simp add: respuestas_ej_def)

theorem C1_selector_minimo_witness:
  "get_amadeus_token entorno_ej = Inr ''token'' \<and>
   fechas_consumidas config_ej (daterange (FECHA_DESDE config_ej) (FECHA_HASTA config_ej)) 0 =
     [100, 101] \<and>
   buscar_mejor_precio_amadeus config_ej entorno_ej =
     Inr (Some ((oferta_ej ''C'' (Inr (Fin 450)))
       \<lparr>nights_tag := Some 7, route_summary := Some (''EZE'', ''MAD'')\<rparr>)) \<and>
   candidatos_ventana config_ej entorno_ej \<noteq> [] \<and>
   (\<exists>i b. i < length (candidatos_ventana config_ej entorno_ej) \<and>
      Some ((oferta_ej ''C'' (Inr (Fin 450)))
        \<lparr>nights_tag := Some 7, route_summary := Some (''EZE'', ''MAD'')\<rparr>) = Some b \<and>
      b = marcar config_ej (candidatos_ventana config_ej entorno_ej ! i) \<and>
      (\<forall>c\<in>set (candidatos_ventana config_ej entorno_ej).
         \<exists>pb pc. price_of b = Inr pb \<and> price_of c = Inr pc \<and> py_le pb pc) \<and>
      (\<forall>j<i. \<exists>pb pj. price_of b = Inr pb \<and>
         price_of (candidatos_ventana config_ej entorno_ej ! j) = Inr pj \<and> py_lt pb pj))"
proof -
  have t: "get_amadeus_token entorno_ej = Inr ''token''"
    by (simp add: entorno_ej_def)
  have q: "\<forall>p. \<exists>data. do_request entorno_ej p = Inr data"
    by (simp add: entorno_ej_def respuestas_ej_Inr)
  have f: "fechas_consumidas config_ej
      (daterange (FECHA_DESDE config_ej) (FECHA_HASTA config_ej)) 0 = [100, 101]"
    by (simp add: ventana_ej daterange_ej)
  have d: "\<forall>d\<in>set (fechas_consumidas config_ej
      (daterange (FECHA_DESDE config_ej) (FECHA_HASTA config_ej)) 0).
           1 \<le> d \<and> d < date_max \<and>
           (\<not> SOLO_IDA config_ej \<longrightarrow>
              (\<forall>n\<in>set [NOCHES_MIN config_ej..NOCHES_MAX config_ej].
                 1 \<le> d + n \<and> d + n \<le> date_max))"
    unfolding f by (simp add: ventana_ej date_max_def upto.simps)
  have n: "\<forall>c\<in>set (candidatos_ventana config_ej entorno_ej). total c \<noteq> Inr NaN"
    by (simp add: candidatos_ventana_ej oferta_ej_def)
  have ne: "candidatos_ventana config_ej entorno_ej \<noteq> []"
    by (simp add: candidatos_ventana_ej)
  from C1_selector_minimo[of config_ej entorno_ej] t q d n
  have "\<exists>r. buscar_mejor_precio_amadeus config_ej entorno_ej = Inr r \<and>
       (candidatos_ventana config_ej entorno_ej = [] \<longrightarrow> r = None) \<and>
       (candidatos_ventana config_ej entorno_ej \<noteq> [] \<longrightarrow>
          (\<exists>i b. i < length (candidatos_ventana config_ej entorno_ej) \<and> r = Some b \<and>
             b = marcar config_ej (candidatos_ventana config_ej entorno_ej ! i) \<and>
             (\<forall>c\<in>set (candidatos_ventana config_ej entorno_ej).
                \<exists>pb pc. price_of b = Inr pb \<and> price_of c = Inr pc \<and> py_le pb pc) \<and>
             (\<forall>j<i. \<exists>pb pj. price_of b = Inr pb \<and>
                price_of (candidatos_ventana config_ej entorno_ej ! j) = Inr pj \<and>
                py_lt pb pj)))"
    by blast
  with ne buscar_ej t f show ?thesis
    by auto
qed

text \<open>
  The runs the statement above leaves out. A total that reads as NaN compares false with
  every price: of the candidates \<open>N\<close> (NaN) and \<open>F\<close> (5), in this order,
  \<^verbatim>\<open>min\<close> keeps \<open>N\<close>, whose price is not less than or equal to 5. A window that ends
  on the last day of the calendar has no candidate, and yet the search does not return
  \<open>None\<close>: the generator raises \<^verbatim>\<open>OverflowError\<close> when the loop asks for the next date.
\<close>

theorem C1_counterexample:
  "candidatos_ventana config_un_dia
      (entorno_con [oferta_ej ''N'' (Inr NaN), oferta_ej ''F'' (Inr (Fin 5))]) =
     [oferta_ej ''N'' (Inr NaN), oferta_ej ''F'' (Inr (Fin 5))] \<and>
   buscar_mejor_precio_amadeus config_un_dia
      (entorno_con [oferta_ej ''N'' (Inr NaN), oferta_ej ''F'' (Inr (Fin 5))]) =
     Inr (Some ((oferta_ej ''N'' (Inr NaN))\<lparr>route_summary := Some (''EZE'', ''MAD'')\<rparr>)) \<and>
   price_of ((oferta_ej ''N'' (Inr NaN))\<lparr>route_summary := Some (''EZE'', ''MAD'')\<rparr>) =
     Inr NaN \<and>
   price_of (oferta_ej ''F'' (Inr (Fin 5))) = Inr (Fin 5) \<and>
   \<not> py_le NaN (Fin 5) \<and>
   candidatos_ventana config_ultimo_dia (entorno_con []) = [] \<and>
   buscar_mejor_precio_amadeus config_ultimo_dia (entorno_con []) = Inl OverflowError"
  by (simp add: ventana_un_dia buscar_un_dia_dos precio_def price_of_def oferta_ej_def
      ventana_ultimo_dia buscar_ultimo_dia)

section \<open>Offers without a price that parses\<close>

text \<open>
  C8, as far as the program goes. \<open>price_of\<close> never raises: it returns a float for every
  offer record, \<open>PInf\<close> for an offer whose total does not parse, and \<open>PInf\<close> is greater
  than or equal to every float that is no NaN. When the search returns, no candidate has
  a total that reads as NaN and some candidate has a total \<open>p\<close> below \<open>PInf\<close>, the
  selected offer has a total that parses, below \<open>PInf\<close> and not above \<open>p\<close>: an offer
  without a price is not selected then. The sign of the price is not checked anywhere.
\<close>

theorem C8_sin_precio:
  "(\<forall>x::offer. \<exists>v. price_of x = Inr v) \<and>
   (\<forall>x::offer. \<forall>e. total x = Inl e \<longrightarrow> price_of x = Inr PInf) \<and>
   (\<forall>v. v \<noteq> NaN \<longrightarrow> py_le v PInf) \<and>
   (\<forall>r c p. buscar_mejor_precio_amadeus cfg env = Inr r \<longrightarrow>
      (\<forall>c'\<in>set (candidatos_ventana cfg env). total c' \<noteq> Inr NaN) \<longrightarrow>
      c \<in> set (candidatos_ventana cfg env) \<longrightarrow> total c = Inr p \<longrightarrow> py_lt p PInf \<longrightarrow>
      (\<exists>b q. r = Some b \<and> total b = Inr q \<and> price_of b = Inr q \<and> py_le q p \<and>
         py_lt q PInf))"
proof (intro conjI)
  show "\<forall>x::offer. \<exists>v. price_of x = Inr v"
    by (simp add: price_of_precio)
next
  show "\<forall>x::offer. \<forall>e. total x = Inl e \<longrightarrow> price_of x = Inr PInf"
    by (simp add: price_of_def)
next
  show "\<forall>v. v \<noteq> NaN \<longrightarrow> py_le v PInf"
  proof (intro allI impI)
    fix v assume "v \<noteq> NaN"
    then show "py_le v PInf" by (cases v) simp_all
  qed
next
  let ?cs = "candidatos_ventana cfg env"
  show "\<forall>r c p. buscar_mejor_precio_amadeus cfg env = Inr r \<longrightarrow>
      (\<forall>c'\<in>set ?cs. total c' \<noteq> Inr NaN) \<longrightarrow>
      c \<in> set ?cs \<longrightarrow> total c = Inr p \<longrightarrow> py_lt p PInf \<longrightarrow>
      (\<exists>b q. r = Some b \<and> total b = Inr q \<and> price_of b = Inr q \<and> py_le q p \<and>
         py_lt q PInf)"
  proof (intro allI impI)
    fix r c p
    assume r: "buscar_mejor_precio_amadeus cfg env = Inr r"
      and nan: "\<forall>c'\<in>set ?cs. total c' \<noteq> Inr NaN"
      and c: "c \<in> set ?cs" and p: "total c = Inr p" and lt: "py_lt p PInf"
    from nan have "\<forall>c\<in>set ?cs. precio c \<noteq> NaN" by (simp add: precio_NaN)
    from buscar_seleccion[OF r this] have s: "seleccion cfg ?cs r" .
    from c have ne: "?cs \<noteq> []" by auto
    with s obtain b i where
      b: "r = Some b" "primero_en precio ?cs i" "b = marcar cfg (?cs ! i)"
      by (cases r) (auto simp: seleccion_def)
    from c obtain j where j: "j < length ?cs" "?cs ! j = c"
      by (auto simp: in_set_conv_nth)
    with b(2) have "py_le (precio (?cs ! i)) (precio c)"
      by (auto simp: primero_en_def)
    moreover have pc: "precio c = p" using p by (simp add: precio_def)
    ultimately have le: "py_le (precio b) p" by (simp add: b(3) precio_marcar)
    from le lt have l: "py_lt (precio b) PInf" by (rule py_le_lt_trans)
    then have "precio b \<noteq> PInf" by (auto simp: py_lt_irrefl)
    then have tb: "total b = Inr (precio b)"
      by (cases "total b") (simp_all add: precio_def)
    with b(1) le l
    show "\<exists>b q. r = Some b \<and> total b = Inr q \<and> price_of b = Inr q \<and> py_le q p \<and>
            py_lt q PInf"
      by (auto simp: price_of_precio)
  qed
qed

theorem C8_sin_precio_witness:
  "buscar_mejor_precio_amadeus config_ej entorno_ej =
     Inr (Some ((oferta_ej ''C'' (Inr (Fin 450)))
       \<lparr>nights_tag := Some 7, route_summary := Some (''EZE'', ''MAD'')\<rparr>)) \<and>
   (oferta_ej ''A'' (Inr (Fin 500)))\<lparr>nights_tag := Some 8\<rparr>
     \<in> set (candidatos_ventana config_ej entorno_ej) \<and>
   (oferta_ej ''B'' (Inl ValueError))\<lparr>nights_tag := Some 8\<rparr>
     \<in> set (candidatos_ventana config_ej entorno_ej) \<and>
   total ((oferta_ej ''A'' (Inr (Fin 500)))\<lparr>nights_tag := Some 8\<rparr>) = Inr (Fin 500) \<and>
   py_lt (Fin 500) PInf \<and>
   (\<exists>b q. Some ((oferta_ej ''C'' (Inr (Fin 450)))
       \<lparr>nights_tag := Some 7, route_summary := Some (''EZE'', ''MAD'')\<rparr>) = Some b \<and>
      total b = Inr q \<and> price_of b = Inr q \<and> py_le q (Fin 500) \<and> py_lt q PInf) \<and>
   price_of ((oferta_ej ''B'' (Inl ValueError))\<lparr>nights_tag := Some 8\<rparr>) = Inr PInf"
proof -
  have a: "(oferta_ej ''A'' (Inr (Fin 500)))\<lparr>nights_tag := Some 8\<rparr>
     \<in> set (candidatos_ventana config_ej entorno_ej)"
    by (simp add: candidatos_ventana_ej)
  have b: "(oferta_ej ''B'' (Inl ValueError))\<lparr>nights_tag := Some 8\<rparr>
     \<in> set (candidatos_ventana config_ej entorno_ej)"
    by (simp add: candidatos_ventana_ej)
  have n: "\<forall>c\<in>set (candidatos_ventana config_ej entorno_ej). total c \<noteq> Inr NaN"
    by (simp add: candidatos_ventana_ej oferta_ej_def)
  have t: "total ((oferta_ej ''A'' (Inr (Fin 500)))\<lparr>nights_tag := Some 8\<rparr>) = Inr (Fin 500)"
    by (simp add: oferta_ej_def)
  have l: "py_lt (Fin 500) PInf" by simp
  have tb: "total ((oferta_ej ''B'' (Inl ValueError))\<lparr>nights_tag := Some 8\<rparr>) =
      Inl ValueError"
    by (simp add: oferta_ej_def)
  from C8_sin_precio[of config_ej entorno_ej] buscar_ej n a t l
  have "\<exists>b q. Some ((oferta_ej ''C'' (Inr (Fin 450)))
       \<lparr>nights_tag := Some 7, route_summary := Some (''EZE'', ''MAD'')\<rparr>) = Some b \<and>
      total b = Inr q \<and> price_of b = Inr q \<and> py_le q (Fin 500) \<and> py_lt q PInf"
    by blast
  moreover from C8_sin_precio[of config_ej entorno_ej] tb
  have "price_of ((oferta_ej ''B'' (Inl ValueError))\<lparr>nights_tag := Some 8\<rparr>) = Inr PInf"
    by blast
  ultimately show ?thesis using buscar_ej a b t l by blast
qed

text \<open>
  The runs the statement above leaves out, and those against the finite, non-negative
  price: a single candidate whose total does not parse is selected, at price \<open>PInf\<close>; a
  negative total is selected as it is; with a candidate \<open>N\<close> whose total reads as NaN
  before a candidate at 5, \<open>N\<close> is selected; a total that reads as an infinity parses
  and is selected.
\<close>

theorem C8_counterexample:
  "candidatos_ventana config_un_dia (entorno_con [oferta_ej ''B'' (Inl ValueError)]) =
     [oferta_ej ''B'' (Inl ValueError)] \<and>
   buscar_mejor_precio_amadeus config_un_dia (entorno_con [oferta_ej ''B'' (Inl ValueError)]) =
     Inr (Some ((oferta_ej ''B'' (Inl ValueError))
        \<lparr>route_summary := Some (''EZE'', ''MAD'')\<rparr>)) \<and>
   price_of ((oferta_ej ''B'' (Inl ValueError))\<lparr>route_summary := Some (''EZE'', ''MAD'')\<rparr>) =
     Inr PInf \<and>
   buscar_mejor_precio_amadeus config_un_dia
      (entorno_con [oferta_ej ''M'' (Inr (Fin (- 5)))]) =
     Inr (Some ((oferta_ej ''M'' (Inr (Fin (- 5))))
        \<lparr>route_summary := Some (''EZE'', ''MAD'')\<rparr>)) \<and>
   price_of ((oferta_ej ''M'' (Inr (Fin (- 5))))\<lparr>route_summary := Some (''EZE'', ''MAD'')\<rparr>) =
     Inr (Fin (- 5)) \<and>
   (- 5 :: real) < 0 \<and>
   buscar_mejor_precio_amadeus config_un_dia
      (entorno_con [oferta_ej ''N'' (Inr NaN), oferta_ej ''F'' (Inr (Fin 5))]) =
     Inr (Some ((oferta_ej ''N'' (Inr NaN))\<lparr>route_summary := Some (''EZE'', ''MAD'')\<rparr>)) \<and>
   price_of ((oferta_ej ''N'' (Inr NaN))\<lparr>route_summary := Some (''EZE'', ''MAD'')\<rparr>) =
     Inr NaN \<and>
   buscar_mejor_precio_amadeus config_un_dia (entorno_con [oferta_ej ''I'' (Inr PInf)]) =
     Inr (Some ((oferta_ej ''I'' (Inr PInf))\<lparr>route_summary := Some (''EZE'', ''MAD'')\<rparr>)) \<and>
   price_of ((oferta_ej ''I'' (Inr PInf))\<lparr>route_summary := Some (''EZE'', ''MAD'')\<rparr>) =
     Inr PInf"
  by (simp add: ventana_un_dia buscar_un_dia_uno buscar_un_dia_dos precio_def price_of_def
      oferta_ej_def)

section \<open>The alert decision\<close>

text \<open>
  C2. Stored minimum 650, price 600, target 600: the decision is to alert, for two
  reasons, the new minimum (a drop of 7.69 per cent) and the target price, and the
  state to save holds 600.
\<close>

theorem C2_nuevo_minimo_y_objetivo:
  "decidir (cfg\<lparr>PRECIO_OBJETIVO := 600\<rparr>) now route_sum
       (state\<lparr>min_price := Some (Fin 650)\<rparr>) (Fin 600) =
     Inr (\<lparr>debe_alertar = True, motivos = [NuevoMinimo (Fin (769 / 100)), PrecioObjetivo]\<rparr>,
          state\<lparr>min_price := Some (Fin 600), min_when := Some now,
                min_route := Some route_sum\<rparr>)"
  by (simp add: decidir_def drop_ej objetivo_def)

text \<open>
  C10. Whenever the decision is reached, the flag is set exactly when there is a reason.
\<close>

theorem C10_alerta_sii_motivos:
  assumes "decidir cfg now route_sum state total_price = Inr (a, state')"
  shows "debe_alertar a \<longleftrightarrow> motivos a \<noteq> []"
  using assms
  by (auto simp: decidir_def objetivo_def split: option.splits if_splits sum.splits)

theorem C10_alerta_sii_motivos_witness:
  "decidir config_fuente ''t1'' ruta_ej (estado_ej (Some (Fin 500))) (Fin 520) =
     Inr (\<lparr>debe_alertar = True, motivos = [PrecioObjetivo]\<rparr>, estado_ej (Some (Fin 500))) \<and>
   debe_alertar \<lparr>debe_alertar = True, motivos = [PrecioObjetivo]\<rparr> =
     (motivos \<lparr>debe_alertar = True, motivos = [PrecioObjetivo]\<rparr> \<noteq> [])"
  using C10_alerta_sii_motivos[OF decidir_ej_520] decidir_ej_520 by simp

lemma main_ej:
  "main config_ej entorno_ej (estado_ej (Some (Fin 650))) =
     \<lparr>eventos = [LoadState,
        SaveState \<lparr>min_price = Some (Fin 450), min_when = Some ''2025-10-01T08:00:00'',
                   min_route = Some (''EZE'', ''MAD'')\<rparr>, SendTelegram],
      archivo = \<lparr>min_price = Some (Fin 450), min_when = Some ''2025-10-01T08:00:00'',
                  min_route = Some (''EZE'', ''MAD'')\<rparr>,
      resultado = Inr (Some \<lparr>debe_alertar = True,
         motivos = [NuevoMinimo (Fin (3077 / 100)), PrecioObjetivo]\<rparr>)\<rparr>"
proof -
  have d: "drop_pct (Fin 650) (Fin 450) = Inr (Fin (3077 / 100))"
    by (simp add: drop_pct_def py_div_def round_half_even_def Let_def)
  have e: "credenciales entorno_ej" "ahora entorno_ej = ''2025-10-01T08:00:00''"
    "send_telegram entorno_ej = Inr ()"
    by (simp_all add: entorno_ej_def)
  have c: "carriers_str ((oferta_ej ''C'' (Inr (Fin 450)))
       \<lparr>nights_tag := Some 7, route_summary := Some (''EZE'', ''MAD'')\<rparr>) = Inr ''N/D''"
    by (simp add: carriers_str_def carriers_de_def oferta_ej_def)
  have t: "total ((oferta_ej ''C'' (Inr (Fin 450)))
       \<lparr>nights_tag := Some 7, route_summary := Some (''EZE'', ''MAD'')\<rparr>) = Inr (Fin 450)"
    "route_summary ((oferta_ej ''C'' (Inr (Fin 450)))
       \<lparr>nights_tag := Some 7, route_summary := Some (''EZE'', ''MAD'')\<rparr>) =
       Some (''EZE'', ''MAD'')"
    by (simp_all add: oferta_ej_def)
  show ?thesis
    by (simp add: main_def buscar_ej e c t decidir_def d objetivo_def
        estado_ej_def ventana_ej Let_def)
qed

lemma decidir_min:
  assumes "decidir cfg now route_sum state total_price = Inr (a, state')"
    and "min_price state = Some p"
  shows "\<exists>q. min_price state' = Some q \<and> (q = p \<or> py_lt q p)"
  using assms
  by (auto simp: decidir_def split: option.splits if_splits sum.splits)

lemma main_min:
  assumes "min_price st = Some p"
  shows "\<exists>q. min_price (archivo (main cfg env st)) = Some q \<and> (q = p \<or> py_lt q p)"
proof -
  have "archivo (main cfg env st) = st \<or>
        (\<exists>now r t a. decidir cfg now r st t = Inr (a, archivo (main cfg env st)))"
    by (auto simp: main_def Let_def split: sum.splits option.splits prod.splits if_splits)
  then show ?thesis
    using assms decidir_min by fastforce
qed

lemma corridas_min:
  assumes "min_price st = Some p"
  shows "\<exists>q. min_price (corridas cfg st envs) = Some q \<and> (q = p \<or> py_lt q p)"
  using assms
proof (induction envs arbitrary: st p)
  case Nil
  then show ?case by (simp add: corridas_def)
next
  case (Cons env envs)
  from main_min[OF Cons.prems, of cfg env]
  obtain q where q: "min_price (corrida cfg st env) = Some q" "q = p \<or> py_lt q p"
    by (auto simp: corrida_def)
  from Cons.IH[OF q(1)] obtain q' where
    "min_price (corridas cfg (corrida cfg st env) envs) = Some q'" "q' = q \<or> py_lt q' q"
    by blast
  with q(2) show ?case by (auto simp: corridas_def intro: py_lt_trans)
qed

text \<open>
  C3. In a sequence of runs from any state file, once a minimum \<open>p\<close> is stored, the
  minimum stored after any further runs is \<open>p\<close> itself or a float strictly below
  \<open>p\<close>: it is less than or equal to \<open>p\<close>, except that a stored NaN, which no price
  replaces, compares false with itself. A run that finds no offer, or that raises before
  \<^verbatim>\<open>save_state\<close>, leaves the file as it was.
\<close>

theorem C3_minimo_no_crece:
  assumes "min_price (corridas cfg st antes) = Some p"
  shows "\<exists>q. min_price (corridas cfg st (antes @ despues)) = Some q \<and>
             (q = p \<or> py_lt q p) \<and> (p \<noteq> NaN \<longrightarrow> py_le q p)"
proof -
  have "corridas cfg st (antes @ despues) = corridas cfg (corridas cfg st antes) despues"
    by (simp add: corridas_def)
  with corridas_min[OF assms, of cfg despues] show ?thesis
    by (auto simp: py_le_refl py_lt_imp_le)
qed

theorem C3_minimo_no_crece_witness:
  "min_price (corridas config_ej (estado_ej (Some (Fin 650))) []) = Some (Fin 650) \<and>
   min_price (corridas config_ej (estado_ej (Some (Fin 650))) ([] @ [entorno_ej])) =
     Some (Fin 450) \<and>
   (\<exists>q. min_price (corridas config_ej (estado_ej (Some (Fin 650))) ([] @ [entorno_ej])) =
          Some q \<and> py_le q (Fin 650))"
proof -
  have a: "min_price (corridas config_ej (estado_ej (Some (Fin 650))) []) = Some (Fin 650)"
    by (simp add: corridas_def estado_ej_def)
  have b: "min_price (corridas config_ej (estado_ej (Some (Fin 650))) ([] @ [entorno_ej])) =
      Some (Fin 450)"
    by (simp add: corridas_def corrida_def main_ej)
  from C3_minimo_no_crece[OF a, of "[entorno_ej]"] a b show ?thesis by auto
qed

text \<open>
  C4. If a run of the decision leaves the stored minimum as it was, a second run with the
  same price on the state the first one saved gives the same decision, with the same
  reasons, and saves the same state again.
\<close>

theorem C4_idempotencia:
  assumes "decidir cfg now1 route1 state total_price = Inr (a, state')"
    and "min_price state' = min_price state"
  shows "decidir cfg now2 route2 state' total_price = Inr (a, state')"
  using assms
  by (auto simp: decidir_def py_lt_irrefl split: option.splits if_splits sum.splits)

theorem C4_idempotencia_witness:
  "decidir config_fuente ''t1'' ruta_ej (estado_ej (Some (Fin 500))) (Fin 520) =
     Inr (\<lparr>debe_alertar = True, motivos = [PrecioObjetivo]\<rparr>, estado_ej (Some (Fin 500))) \<and>
   decidir config_fuente ''t2'' ruta_ej (estado_ej (Some (Fin 500))) (Fin 520) =
     Inr (\<lparr>debe_alertar = True, motivos = [PrecioObjetivo]\<rparr>, estado_ej (Some (Fin 500)))"
  using C4_idempotencia[OF decidir_ej_520 refl, of "''t2''" ruta_ej] decidir_ej_520
  by simp

lemma round_half_even_nonpos: "x \<le> 0 \<Longrightarrow> round_half_even x \<le> 0"
proof -
  assume x: "x \<le> 0"
  have le: "of_int \<lfloor>x\<rfloor> \<le> x" by (rule of_int_floor_le)
  with x have "(of_int \<lfloor>x\<rfloor> :: real) \<le> 0" by linarith
  then have f: "\<lfloor>x\<rfloor> \<le> 0" by (simp only: of_int_le_0_iff)
  show ?thesis
  proof (cases "x = 0")
    case True
    then show ?thesis by (simp add: round_half_even_def)
  next
    case False
    with x le have "(of_int \<lfloor>x\<rfloor> :: real) < 0" by linarith
    then have "\<lfloor>x\<rfloor> < 0" by (simp only: of_int_less_0_iff)
    then have "\<lfloor>x\<rfloor> + 1 \<le> 0" by linarith
    with f show ?thesis by (simp add: round_half_even_def Let_def)
  qed
qed

lemma py_round2_nonpos: "x \<le> 0 \<Longrightarrow> \<exists>r. py_round2 (Fin x) = Fin r \<and> r \<le> 0"
proof -
  assume "x \<le> 0"
  then have "x * 100 \<le> 0" by simp
  then have "round_half_even (x * 100) \<le> 0" by (rule round_half_even_nonpos)
  then have "(of_int (round_half_even (x * 100)) :: real) \<le> 0" by simp
  then have "(of_int (round_half_even (x * 100)) :: real) / 100 \<le> 0"
    by (simp add: divide_le_0_iff)
  then show ?thesis
    by (intro exI[of _ "of_int (round_half_even (x * 100)) / 100"]) simp
qed

lemma drop_pct_nonpos:
  assumes "0 < prev_min" "prev_min \<le> total_price"
  shows "\<exists>d. drop_pct (Fin prev_min) (Fin total_price) = Inr (Fin d) \<and> d \<le> 0"
proof -
  have "(prev_min - total_price) * 100 / prev_min \<le> 0"
    using assms by (simp add: divide_le_0_iff mult_le_0_iff)
  from py_round2_nonpos[OF this] assms(1) show ?thesis
    by (simp add: drop_pct_def py_div_def)
qed

lemma drop_pct_sin_baja:
  assumes "py_lt (Fin 0) prev_min" "py_le prev_min total_price"
  shows "\<exists>d. drop_pct prev_min total_price = Inr d \<and>
             (py_le d (Fin 0) \<or> (prev_min = PInf \<and> total_price = PInf \<and> d = NaN))"
proof (cases prev_min)
  case (Fin p)
  with assms(1) have p: "0 < p" by simp
  show ?thesis
  proof (cases total_price)
    case (Fin t)
    with assms(2) \<open>prev_min = Fin p\<close> have "p \<le> t" by simp
    from drop_pct_nonpos[OF p this] Fin \<open>prev_min = Fin p\<close> show ?thesis by auto
  next
    case PInf
    with \<open>prev_min = Fin p\<close> p show ?thesis by (simp add: drop_pct_def py_div_def)
  next
    case NInf
    with assms(2) \<open>prev_min = Fin p\<close> show ?thesis by simp
  next
    case NaN
    with assms(2) \<open>prev_min = Fin p\<close> show ?thesis by simp
  qed
next
  case PInf
  with assms(2) have "total_price = PInf" by (cases total_price) simp_all
  with PInf show ?thesis by (simp add: drop_pct_def py_div_def)
next
  case NInf
  with assms(1) show ?thesis by simp
next
  case NaN
  with assms(1) show ?thesis by simp
qed

text \<open>
  C5, for a stored minimum that is positive. With a price not below the stored minimum
  and a positive threshold, the percentage is computed and does not reach the threshold:
  it is zero or negative, or it is a NaN when the stored minimum and the price are both
  \<open>PInf\<close>. The branch adds no reason: the decision is the one of the target price alone
  and the state is unchanged.
\<close>

theorem C5_sin_baja:
  assumes "min_price state = Some prev_min" "py_lt (Fin 0) prev_min"
    and "py_le prev_min total_price" and "0 < BAJA_MINIMA_PCT cfg"
  shows "\<exists>d. drop_pct prev_min total_price = Inr d \<and>
           (py_le d (Fin 0) \<or> (prev_min = PInf \<and> total_price = PInf \<and> d = NaN)) \<and>
           \<not> py_le (Fin (BAJA_MINIMA_PCT cfg)) d \<and>
           decidir cfg now route_sum state total_price =
             Inr (objetivo cfg total_price \<lparr>debe_alertar = False, motivos = []\<rparr>, state)"
proof -
  from drop_pct_sin_baja[OF assms(2,3)] obtain d where
    d: "drop_pct prev_min total_price = Inr d"
       "py_le d (Fin 0) \<or> (prev_min = PInf \<and> total_price = PInf \<and> d = NaN)" by blast
  have nb: "\<not> py_le (Fin (BAJA_MINIMA_PCT cfg)) d"
  proof
    assume b: "py_le (Fin (BAJA_MINIMA_PCT cfg)) d"
    then have "d \<noteq> NaN" using py_le_no_NaN by blast
    with d(2) have "py_le d (Fin 0)" by blast
    with b have "py_le (Fin (BAJA_MINIMA_PCT cfg)) (Fin 0)" by (rule py_le_trans)
    with assms(4) show False by simp
  qed
  have nl: "\<not> py_lt total_price prev_min"
  proof
    assume "py_lt total_price prev_min"
    with assms(3) have "py_lt prev_min prev_min" by (rule py_le_lt_trans)
    then show False by (simp add: py_lt_irrefl)
  qed
  from d nb nl assms(1) show ?thesis
    by (simp add: decidir_def)
qed

theorem C5_sin_baja_witness:
  "min_price (estado_ej (Some (Fin 500))) = Some (Fin 500) \<and> py_lt (Fin 0) (Fin 500) \<and>
   py_le (Fin 500) (Fin 520) \<and>
   0 < BAJA_MINIMA_PCT (config_fuente\<lparr>PRECIO_OBJETIVO := 500\<rparr>) \<and>
   drop_pct (Fin 500) (Fin 520) = Inr (Fin (- 4)) \<and>
   decidir (config_fuente\<lparr>PRECIO_OBJETIVO := 500\<rparr>) ''t1'' ruta_ej
       (estado_ej (Some (Fin 500))) (Fin 520) =
     Inr (\<lparr>debe_alertar = False, motivos = []\<rparr>, estado_ej (Some (Fin 500)))"
proof -
  have a: "min_price (estado_ej (Some (Fin 500))) = Some (Fin 500)"
    by (simp add: estado_ej_def)
  have b: "py_lt (Fin 0) (Fin 500)" by simp
  have c: "py_le (Fin 500) (Fin 520)" by simp
  have d: "0 < BAJA_MINIMA_PCT (config_fuente\<lparr>PRECIO_OBJETIVO := 500\<rparr>)"
    by (simp add: config_fuente_def)
  from C5_sin_baja[OF a b c d, of "''t1''" ruta_ej] a b c d show ?thesis
    by (simp add: drop_ej_520 objetivo_def)
qed

text \<open>
  Without a positive stored minimum the statement fails: for a stored minimum of -100
  and a price of -50 the percentage is 50 and the branch adds its reason; for a stored
  minimum of zero the division raises. For a stored minimum and a price that are both
  \<open>PInf\<close> the percentage is a NaN, which is not zero or negative.
\<close>

theorem C5_counterexample:
  "min_price (estado_ej (Some (Fin (- 100)))) = Some (Fin (- 100)) \<and>
   py_le (Fin (- 100)) (Fin (- 50)) \<and>
   0 < BAJA_MINIMA_PCT config_fuente \<and>
   decidir config_fuente ''t1'' ruta_ej (estado_ej (Some (Fin (- 100)))) (Fin (- 50)) =
     Inr (\<lparr>debe_alertar = True, motivos = [BajaVsMinimo (Fin 50), PrecioObjetivo]\<rparr>,
          estado_ej (Some (Fin (- 100)))) \<and>
   min_price (estado_ej (Some (Fin 0))) = Some (Fin 0) \<and> py_le (Fin 0) (Fin 0) \<and>
   decidir config_fuente ''t1'' ruta_ej (estado_ej (Some (Fin 0))) (Fin 0) =
     Inl ZeroDivisionError \<and>
   py_lt (Fin 0) PInf \<and> py_le PInf PInf \<and> drop_pct PInf PInf = Inr NaN \<and>
   \<not> py_le NaN (Fin 0)"
proof -
  have z: "drop_pct (Fin 0) (Fin 0) = Inl ZeroDivisionError"
    by (simp add: drop_pct_def py_div_def)
  show ?thesis
    by (simp add: decidir_def drop_ej_neg drop_ej_inf z objetivo_def estado_ej_def
        config_fuente_def)
qed

section \<open>What a run does to the state file\<close>

lemma main_sin_ofertas:
  assumes "credenciales env" "buscar_mejor_precio_amadeus cfg env = Inr None"
  shows "main cfg env st = \<lparr>eventos = [], archivo = st, resultado = Inr None\<rparr>"
  using assms by (simp add: main_def)

lemma drop_pct_returns: "prev_min \<noteq> Fin 0 \<Longrightarrow> \<exists>d. drop_pct prev_min total_price = Inr d"
  by (simp add: drop_pct_def py_div_def)

lemma decidir_returns:
  assumes "min_price st \<noteq> Some (Fin 0)"
  shows "\<exists>a st'. decidir cfg now route_sum st total_price = Inr (a, st')"
proof (cases "min_price st")
  case None
  then show ?thesis by (simp add: decidir_def)
next
  case (Some prev_min)
  with assms have "prev_min \<noteq> Fin 0" by simp
  from drop_pct_returns[OF this] obtain d where "drop_pct prev_min total_price = Inr d"
    by blast
  with Some show ?thesis by (simp add: decidir_def)
qed

lemma main_con_decision:
  assumes "credenciales env" "buscar_mejor_precio_amadeus cfg env = Inr (Some offer)"
    and "total offer = Inr p" and "carriers_str offer = Inr s"
    and "min_price st \<noteq> Some (Fin 0)"
  shows "\<exists>a st'.
           decidir cfg (ahora env)
             (case route_summary offer of Some r \<Rightarrow> r | None \<Rightarrow> (ORIGEN cfg, DESTINO cfg))
             st p = Inr (a, st') \<and>
           archivo (main cfg env st) = st' \<and>
           take 2 (eventos (main cfg env st)) = [LoadState, SaveState st'] \<and>
           (SendTelegram \<in> set (eventos (main cfg env st)) \<longrightarrow> debe_alertar a)"
proof -
  from decidir_returns[OF assms(5)] obtain a st' where
    d: "decidir cfg (ahora env)
          (case route_summary offer of Some r \<Rightarrow> r | None \<Rightarrow> (ORIGEN cfg, DESTINO cfg))
          st p = Inr (a, st')" by blast
  with assms(1-4) have "archivo (main cfg env st) = st' \<and>
      take 2 (eventos (main cfg env st)) = [LoadState, SaveState st'] \<and>
      (SendTelegram \<in> set (eventos (main cfg env st)) \<longrightarrow> debe_alertar a)"
    by (simp add: main_def Let_def split: sum.splits)
  with d show ?thesis by blast
qed

text \<open>
  C9, for the runs that reach \<^verbatim>\<open>save_state\<close>. With the credentials set: a search that
  returns no offer ends the run with no decision, the state file neither read nor
  written and nothing sent. When an offer is selected, its total parses, its carrier
  codes join (each of them is a string) and the stored minimum is not zero, the decision
  is reached, the state is read, then saved, whether or not the alert fires, and a
  message is sent only if it fires.
\<close>

theorem C9_estado_persistido:
  assumes "credenciales env"
  shows "(buscar_mejor_precio_amadeus cfg env = Inr None \<longrightarrow>
            main cfg env st = \<lparr>eventos = [], archivo = st, resultado = Inr None\<rparr>) \<and>
         (\<forall>offer p s.
            buscar_mejor_precio_amadeus cfg env = Inr (Some offer) \<longrightarrow>
            total offer = Inr p \<longrightarrow>
            carriers_str offer = Inr s \<longrightarrow>
            min_price st \<noteq> Some (Fin 0) \<longrightarrow>
            (\<exists>a st'.
               decidir cfg (ahora env)
                 (case route_summary offer of Some r \<Rightarrow> r | None \<Rightarrow> (ORIGEN cfg, DESTINO cfg))
                 st p = Inr (a, st') \<and>
               archivo (main cfg env st) = st' \<and>
               take 2 (eventos (main cfg env st)) = [LoadState, SaveState st'] \<and>
               (SendTelegram \<in> set (eventos (main cfg env st)) \<longrightarrow> debe_alertar a)))"
  using main_sin_ofertas[OF assms] main_con_decision[OF assms] by blast

theorem C9_estado_persistido_witness:
  "credenciales entorno_ej \<and> credenciales (entorno_con []) \<and>
   buscar_mejor_precio_amadeus config_un_dia (entorno_con []) = Inr None \<and>
   main config_un_dia (entorno_con []) (estado_ej (Some (Fin 650))) =
     \<lparr>eventos = [], archivo = estado_ej (Some (Fin 650)), resultado = Inr None\<rparr> \<and>
   buscar_mejor_precio_amadeus config_ej entorno_ej =
     Inr (Some ((oferta_ej ''C'' (Inr (Fin 450)))
       \<lparr>nights_tag := Some 7, route_summary := Some (''EZE'', ''MAD'')\<rparr>)) \<and>
   total ((oferta_ej ''C'' (Inr (Fin 450)))
       \<lparr>nights_tag := Some 7, route_summary := Some (''EZE'', ''MAD'')\<rparr>) = Inr (Fin 450) \<and>
   carriers_str ((oferta_ej ''C'' (Inr (Fin 450)))
       \<lparr>nights_tag := Some 7, route_summary := Some (''EZE'', ''MAD'')\<rparr>) = Inr ''N/D'' \<and>
   min_price (estado_ej (Some (Fin 650))) \<noteq> Some (Fin 0) \<and>
   (\<exists>a st'.
      decidir config_ej (ahora entorno_ej) (''EZE'', ''MAD'') (estado_ej (Some (Fin 650)))
        (Fin 450) = Inr (a, st') \<and>
      archivo (main config_ej entorno_ej (estado_ej (Some (Fin 650)))) = st' \<and>
      take 2 (eventos (main config_ej entorno_ej (estado_ej (Some (Fin 650))))) =
        [LoadState, SaveState st'])"
proof -
  let ?C = "(oferta_ej ''C'' (Inr (Fin 450)))
       \<lparr>nights_tag := Some 7, route_summary := Some (''EZE'', ''MAD'')\<rparr>"
  have a: "credenciales entorno_ej" by (simp add: entorno_ej_def)
  have b: "credenciales (entorno_con [])" by (simp add: entorno_con_simps)
  from C9_estado_persistido[OF b, of config_un_dia "estado_ej (Some (Fin 650))"]
    buscar_un_dia_vacio
  have c: "main config_un_dia (entorno_con []) (estado_ej (Some (Fin 650))) =
     \<lparr>eventos = [], archivo = estado_ej (Some (Fin 650)), resultado = Inr None\<rparr>" by blast
  have t: "total ?C = Inr (Fin 450)" by (simp add: oferta_ej_simps)
  have k: "carriers_str ?C = Inr ''N/D''"
    by (simp add: carriers_str_def carriers_de_def oferta_ej_simps)
  have m: "min_price (estado_ej (Some (Fin 650))) \<noteq> Some (Fin 0)"
    by (simp add: estado_ej_def)
  have r: "(case route_summary ?C of Some r \<Rightarrow> r
            | None \<Rightarrow> (ORIGEN config_ej, DESTINO config_ej)) = (''EZE'', ''MAD'')"
    by simp
  from C9_estado_persistido[OF a, of config_ej "estado_ej (Some (Fin 650))"] buscar_ej t k m
  have "\<exists>a st'.
      decidir config_ej (ahora entorno_ej)
        (case route_summary ?C of Some r \<Rightarrow> r
         | None \<Rightarrow> (ORIGEN config_ej, DESTINO config_ej))
        (estado_ej (Some (Fin 650))) (Fin 450) = Inr (a, st') \<and>
      archivo (main config_ej entorno_ej (estado_ej (Some (Fin 650)))) = st' \<and>
      take 2 (eventos (main config_ej entorno_ej (estado_ej (Some (Fin 650))))) =
        [LoadState, SaveState st'] \<and>
      (SendTelegram \<in> set (eventos (main config_ej entorno_ej (estado_ej (Some (Fin 650)))))
        \<longrightarrow> debe_alertar a)"
    by blast
  then have d: "\<exists>a st'.
      decidir config_ej (ahora entorno_ej) (''EZE'', ''MAD'') (estado_ej (Some (Fin 650)))
        (Fin 450) = Inr (a, st') \<and>
      archivo (main config_ej entorno_ej (estado_ej (Some (Fin 650)))) = st' \<and>
      take 2 (eventos (main config_ej entorno_ej (estado_ej (Some (Fin 650))))) =
        [LoadState, SaveState st']"
    unfolding r by blast
  from a b c buscar_un_dia_vacio buscar_ej t k m d show ?thesis by blast
qed

text \<open>
  Runs with an offer selected that save nothing: the total of the selected offer does
  not parse (line 200 raises before the state is read); the stored minimum is zero (the
  percentage raises before \<^verbatim>\<open>save_state\<close>); a carrier code of the selected offer is no
  string (line 212 raises \<^verbatim>\<open>TypeError\<close> before the state is read), though the total
  parses.
\<close>

theorem C9_counterexample:
  "credenciales (entorno_con [oferta_ej ''B'' (Inl ValueError)]) \<and>
   buscar_mejor_precio_amadeus config_un_dia (entorno_con [oferta_ej ''B'' (Inl ValueError)]) =
     Inr (Some ((oferta_ej ''B'' (Inl ValueError))
        \<lparr>route_summary := Some (''EZE'', ''MAD'')\<rparr>)) \<and>
   main config_un_dia (entorno_con [oferta_ej ''B'' (Inl ValueError)])
       (estado_ej (Some (Fin 650))) =
     \<lparr>eventos = [], archivo = estado_ej (Some (Fin 650)), resultado = Inl ValueError\<rparr> \<and>
   buscar_mejor_precio_amadeus config_un_dia (entorno_con [oferta_ej ''Z'' (Inr (Fin 10))]) =
     Inr (Some ((oferta_ej ''Z'' (Inr (Fin 10)))
        \<lparr>route_summary := Some (''EZE'', ''MAD'')\<rparr>)) \<and>
   main config_un_dia (entorno_con [oferta_ej ''Z'' (Inr (Fin 10))]) (estado_ej (Some (Fin 0))) =
     \<lparr>eventos = [LoadState], archivo = estado_ej (Some (Fin 0)),
      resultado = Inl ZeroDivisionError\<rparr> \<and>
   buscar_mejor_precio_amadeus config_un_dia (entorno_con [oferta_con_codigo NoCadena]) =
     Inr (Some ((oferta_con_codigo NoCadena)\<lparr>route_summary := Some (''EZE'', ''MAD'')\<rparr>)) \<and>
   total (oferta_con_codigo NoCadena) = Inr (Fin 450) \<and>
   main config_un_dia (entorno_con [oferta_con_codigo NoCadena]) (estado_ej (Some (Fin 650))) =
     \<lparr>eventos = [], archivo = estado_ej (Some (Fin 650)), resultado = Inl TypeError\<rparr>"
proof -
  have z: "drop_pct (Fin 0) (Fin 10) = Inl ZeroDivisionError"
    by (simp add: drop_pct_def py_div_def)
  have t: "total (oferta_con_codigo NoCadena) = Inr (Fin 450)"
    by (simp add: oferta_con_codigo_def)
  have m1: "main config_un_dia (entorno_con [oferta_ej ''B'' (Inl ValueError)])
       (estado_ej (Some (Fin 650))) =
     \<lparr>eventos = [], archivo = estado_ej (Some (Fin 650)), resultado = Inl ValueError\<rparr>"
    by (simp add: main_def buscar_un_dia_uno entorno_con_simps oferta_ej_simps)
  have m2: "main config_un_dia (entorno_con [oferta_ej ''Z'' (Inr (Fin 10))])
       (estado_ej (Some (Fin 0))) =
     \<lparr>eventos = [LoadState], archivo = estado_ej (Some (Fin 0)),
      resultado = Inl ZeroDivisionError\<rparr>"
    by (simp add: main_def buscar_un_dia_uno entorno_con_simps carriers_route carriers_ej
        oferta_ej_simps decidir_def z estado_ej_def Let_def)
  have m3: "main config_un_dia (entorno_con [oferta_con_codigo NoCadena])
       (estado_ej (Some (Fin 650))) =
     \<lparr>eventos = [], archivo = estado_ej (Some (Fin 650)), resultado = Inl TypeError\<rparr>"
    by (simp add: main_def buscar_un_dia_uno entorno_con_simps carriers_route
        carriers_con_codigo t Let_def)
  show ?thesis
    by (simp add: m1 m2 m3 t buscar_un_dia_uno entorno_con_simps)
qed

end
